theory Spec2Isabelle
  imports Main
begin

section \<open>JavaScript strings\<close>

text \<open>
  A JavaScript string is modelled as a list of code units below 256 (ASCII and Latin-1).
  \<open>toLowerCase\<close> maps \<open>A\<close>..\<open>Z\<close> and the Latin-1 capitals (0xC0 to 0xDE without the
  multiplication sign 0xD7) to the letter 32 above, which sets the bit of weight 32;
  \<open>\s\<close> is the white space of that range, \<open>\w\<close> is \<open>[A-Za-z0-9_]\<close> and \<open>\d\<close> is
  \<open>[0-9]\<close>.
\<close>

fun setBit5 :: "char \<Rightarrow> char" where
  "setBit5 (Char b0 b1 b2 b3 b4 b5 b6 b7) = Char b0 b1 b2 b3 b4 True b6 b7"

definition isUpperCase :: "char \<Rightarrow> bool" where
  "isUpperCase c =
     ((65 \<le> (of_char c :: nat) \<and> (of_char c :: nat) \<le> 90) \<or>
      (192 \<le> (of_char c :: nat) \<and> (of_char c :: nat) \<le> 222 \<and> (of_char c :: nat) \<noteq> 215))"

definition toLowerChar :: "char \<Rightarrow> char" where
  "toLowerChar c = (if isUpperCase c then setBit5 c else c)"

definition toLowerCase :: "string \<Rightarrow> string" where
  "toLowerCase s = map toLowerChar s"

definition isSpace :: "char \<Rightarrow> bool" where
  "isSpace c = (c \<in> set [CHR 0x09, CHR 0x0A, CHR 0x0B, CHR 0x0C, CHR 0x0D, CHR 0x20, CHR 0xA0])"

definition isDigit :: "char \<Rightarrow> bool" where
  "isDigit c = (c \<in> set ''0123456789'')"

definition isWordChar :: "char \<Rightarrow> bool" where
  "isWordChar c = (c \<in> set ''abcdefghijklmnopqrstuvwxyz0123456789_ABCDEFGHIJKLMNOPQRSTUVWXYZ'')"

text \<open>\<open>String.prototype.startsWith\<close> and \<open>String.prototype.includes\<close>.\<close>

fun startsWith :: "string \<Rightarrow> string \<Rightarrow> bool" where
  "startsWith s [] = True"
| "startsWith [] (p # ps) = False"
| "startsWith (c # cs) (p # ps) = (c = p \<and> startsWith cs ps)"

fun includesStr :: "string \<Rightarrow> string \<Rightarrow> bool" where
  "includesStr [] p = (p = [])"
| "includesStr (c # cs) p = (startsWith (c # cs) p \<or> includesStr cs p)"

text \<open>
  \<open>s.split(re)\<close> for a regular expression \<open>re\<close> that matches the non-empty runs of
  the characters \<open>sep\<close> (\<open>/\s+/\<close>, \<open>/[_\s]+/\<close>): the pieces between the runs, an
  empty piece before a leading run and after a trailing one.
\<close>

function splitRuns :: "(char \<Rightarrow> bool) \<Rightarrow> string \<Rightarrow> string list" where
  "splitRuns sep s =
     (let piece = takeWhile (\<lambda>c. \<not> sep c) s;
          rest = dropWhile (\<lambda>c. \<not> sep c) s
      in if rest = [] then [piece] else piece # splitRuns sep (dropWhile sep rest))"
  by pat_completeness auto
termination
proof (relation "measure (\<lambda>(sep, s). length s)")
  show "wf (measure (\<lambda>(sep, s). length s))" by simp
next
  fix sep :: "char \<Rightarrow> bool" and s piece rest :: string
  assume r: "rest = dropWhile (\<lambda>c. \<not> sep c) s" and ne: "rest \<noteq> []"
  have "dropWhile (\<lambda>c. \<not> sep c) s \<noteq> [] \<Longrightarrow>
        length (dropWhile sep (dropWhile (\<lambda>c. \<not> sep c) s)) < length s"
    by (induction s) (auto simp: less_Suc_eq_le length_dropWhile_le intro: le_SucI)
  with r ne show "((sep, dropWhile sep rest), (sep, s)) \<in> measure (\<lambda>(sep, s). length s)"
    by simp
qed

declare splitRuns.simps [simp del]

text \<open>\<open>parseInt\<close> on a string of decimal digits, and the decimal text of a number.\<close>

definition digitVal :: "char \<Rightarrow> nat" where
  "digitVal c = (of_char c :: nat) - 48"

definition parseInt :: "string \<Rightarrow> nat" where
  "parseInt ds = foldl (\<lambda>n c. 10 * n + digitVal c) 0 ds"

fun showNat :: "nat \<Rightarrow> string" where
  "showNat n = (if n < 10 then [''0123456789'' ! n] else showNat (n div 10) @ [''0123456789'' ! (n mod 10)])"

declare showNat.simps [simp del]

section \<open>Schema catalog and the semantic mapper (semanticMapper.ts)\<close>

text \<open>A row of \<open>schemaCache\<close>: a column of \<open>information_schema.columns\<close> with its sample.\<close>

record SchemaColumn =
  table_name :: string
  column_name :: string
  data_type :: string
  sampled_values :: "string list option"

record TableMapping =
  tableName :: string
  score :: int

record ColumnMapping = TableMapping +
  columnName :: string
  dataType :: string

text \<open>The fields of \<open>LLMQueryAnalysis\<close> that the planner reads.\<close>

record LLMQueryAnalysis =
  suggestedTables :: "string list"
  suggestedColumns :: "string list"
  weatherFilter :: string
  groupingDimensions :: "string list"

record MappingResult =
  tables :: "TableMapping list"
  suggestedColumnsOf :: "ColumnMapping list"
  llmAnalysis :: LLMQueryAnalysis

definition bonus :: "bool \<Rightarrow> int \<Rightarrow> int" where
  "bonus b n = (if b then n else 0)"

definition someIn :: "string list \<Rightarrow> string list \<Rightarrow> bool" where
  "someIn userWords vocabulary = list_ex (\<lambda>word. word \<in> set vocabulary) userWords"

definition userWordsOf :: "string \<Rightarrow> string list" where
  "userWordsOf userText = filter (\<lambda>word. length word > 0) (splitRuns isSpace (toLowerCase userText))"

definition distanceWords :: "string list" where
  "distanceWords = [''distance'', ''km'', ''kilometre'', ''kilometres'', ''kilometer'', ''kilometers'',
     ''how many kilometres'', ''how many kilometers'']"

definition dateWords :: "string list" where
  "dateWords = [''date'', ''time'', ''when'', ''june'', ''2025'', ''month'', ''week'', ''day'', ''started'',
     ''ended'', ''ride'', ''journey'', ''first'', ''last'']"

definition numericWords :: "string list" where
  "numericWords = [''number'', ''amount'', ''count'', ''total'', ''sum'', ''average'', ''avg'', ''distance'',
     ''km'', ''kilometre'', ''how many'', ''most'', ''departures'']"

definition textWords :: "string list" where
  "textWords = [''name'', ''text'', ''description'', ''label'', ''avenue'', ''congress'', ''station'',
     ''location'', ''place'', ''point'', ''docking'']"

definition genderWords :: "string list" where
  "genderWords = [''women'', ''men'', ''gender'', ''female'', ''male'', ''rider'']"

definition weatherWords :: "string list" where
  "weatherWords = [''weather'', ''rain'', ''rainy'', ''precipitation'', ''temperature'', ''temp'', ''condition'']"

text \<open>1. Name similarity: the exact match and the loop over the user's words.\<close>

definition exactNameScore :: "string list \<Rightarrow> string \<Rightarrow> int" where
  "exactNameScore userWords colName = bonus (list_ex (\<lambda>word. colName = word) userWords) 100"

definition partialWordScore :: "string \<Rightarrow> string \<Rightarrow> int" where
  "partialWordScore colName userWord =
     (if length userWord > 2 then
        bonus (includesStr colName userWord) 50 +
        bonus (includesStr userWord colName) 30 +
        bonus (list_ex (\<lambda>token. includesStr token userWord \<or> includesStr userWord token)
                 (splitRuns (\<lambda>c. c = CHR ''_'' \<or> isSpace c) colName)) 25
      else 0)"

definition partialNameScore :: "string list \<Rightarrow> string \<Rightarrow> int" where
  "partialNameScore userWords colName = sum_list (map (partialWordScore colName) userWords)"

definition distanceColumnScore :: "string list \<Rightarrow> string \<Rightarrow> int" where
  "distanceColumnScore userWords colName =
     (if includesStr colName ''distance'' \<or> includesStr colName ''km''
      then bonus (someIn userWords distanceWords) 50 else 0)"

text \<open>2. Type compatibility.\<close>

definition typeScore :: "string list \<Rightarrow> string \<Rightarrow> int" where
  "typeScore userWords dtype =
     (if includesStr dtype ''timestamp'' \<or> includesStr dtype ''date''
      then bonus (someIn userWords dateWords) 40 else 0) +
     (if includesStr dtype ''numeric'' \<or> includesStr dtype ''integer''
      then bonus (someIn userWords numericWords) 40 else 0) +
     (if includesStr dtype ''character'' \<or> includesStr dtype ''text''
      then bonus (someIn userWords textWords) 40 + bonus (someIn userWords genderWords) 35 +
           bonus (someIn userWords weatherWords) 35
      else 0)"

text \<open>3. Value overlap with the sampled distinct values.\<close>

definition valueOverlapScore :: "string list \<Rightarrow> string list option \<Rightarrow> int" where
  "valueOverlapScore userWords sampled =
     (case sampled of
        None \<Rightarrow> 0
      | Some vals \<Rightarrow>
          sum_list (map (\<lambda>userWord.
            bonus (list_ex (\<lambda>v. includesStr v userWord \<or> includesStr userWord v) (map toLowerCase vals)) 30)
            userWords))"

text \<open>4. Table proximity and domain knowledge.\<close>

definition tableScore :: "string list \<Rightarrow> string \<Rightarrow> int" where
  "tableScore userWords tblName =
     (if tblName = ''trips'' then
        bonus (someIn userWords [''trip'', ''ride'', ''journey'', ''started'', ''ended'', ''departure'', ''arrival'']) 30 +
        bonus (someIn userWords [''time'', ''duration'', ''how long'', ''average'']) 25 +
        bonus (someIn userWords distanceWords) 35 +
        bonus (someIn userWords [''women'', ''woman'', ''female'', ''females'', ''gender'']) 25
      else 0) +
     (if tblName = ''stations'' then
        bonus (someIn userWords [''station'', ''congress'', ''avenue'', ''location'', ''place'', ''start'', ''end'',
                 ''point'', ''docking'']) 30 +
        bonus (someIn userWords [''name'', ''title'', ''most'', ''departures'']) 25
      else 0) +
     (if tblName = ''daily_weather'' then
        bonus (someIn userWords [''weather'', ''rain'', ''rainy'', ''precipitation'', ''condition'']) 30 +
        bonus (someIn userWords [''temperature'', ''temp'', ''hot'', ''cold'']) 25
      else 0) +
     (if tblName = ''bikes'' then bonus (someIn userWords [''bike'', ''bicycle'', ''vehicle'']) 30 else 0)"

text \<open>5. Cardinality bonus.\<close>

definition cardinalityScore :: "string list option \<Rightarrow> int" where
  "cardinalityScore sampled =
     (case sampled of None \<Rightarrow> 0 | Some vals \<Rightarrow> bonus (length vals > 10) 10)"

definition calculateColumnScore :: "string \<Rightarrow> SchemaColumn \<Rightarrow> int" where
  "calculateColumnScore userText columnMapping =
     (if userText = [] \<or> column_name columnMapping = [] then 0
      else
        let userWords = userWordsOf userText;
            colName = toLowerCase (column_name columnMapping);
            dtype = toLowerCase (data_type columnMapping);
            tblName = toLowerCase (table_name columnMapping)
        in exactNameScore userWords colName + partialNameScore userWords colName +
           distanceColumnScore userWords colName + typeScore userWords dtype +
           valueOverlapScore userWords (sampled_values columnMapping) +
           tableScore userWords tblName + cardinalityScore (sampled_values columnMapping))"

text \<open>
  A JavaScript \<open>Map\<close> keeps its keys in insertion order; \<open>set\<close> on a key that is
  present replaces the value in place.
\<close>

fun mapSet :: "string \<Rightarrow> 'v \<Rightarrow> (string \<times> 'v) list \<Rightarrow> (string \<times> 'v) list" where
  "mapSet k v [] = [(k, v)]"
| "mapSet k v ((k', v') # m) = (if k' = k then (k, v) # m else (k', v') # mapSet k v m)"

text \<open>
  \<open>refreshSchemaCache\<close>: \<open>schemaInfo\<close> is what the database returned, the rows as
  \<open>sampleCategoricalValues\<close> left them, or \<open>None\<close> for a failure or an invalid answer.
\<close>

definition refreshSchemaCache :: "SchemaColumn list option \<Rightarrow> SchemaColumn list" where
  "refreshSchemaCache schemaInfo = (case schemaInfo of Some rows \<Rightarrow> rows | None \<Rightarrow> [])"

definition ensureFresh :: "SchemaColumn list option \<Rightarrow> SchemaColumn list \<Rightarrow> SchemaColumn list" where
  "ensureFresh schemaInfo schemaCache =
     (if length schemaCache = 0 then refreshSchemaCache schemaInfo else schemaCache)"

definition validColumn :: "SchemaColumn \<Rightarrow> bool" where
  "validColumn col = (table_name col \<noteq> [] \<and> column_name col \<noteq> [])"

definition groupStep ::
  "(string \<times> SchemaColumn list) list \<Rightarrow> SchemaColumn \<Rightarrow> (string \<times> SchemaColumn list) list" where
  "groupStep grouped col =
     (if validColumn col
      then mapSet (table_name col)
             ((case map_of grouped (table_name col) of None \<Rightarrow> [] | Some cols \<Rightarrow> cols) @ [col])
             grouped
      else grouped)"

definition groupColumnsByTable :: "SchemaColumn list \<Rightarrow> (string \<times> SchemaColumn list) list" where
  "groupColumnsByTable schemaCache = foldl groupStep [] schemaCache"

definition scoreTableColumns :: "string \<Rightarrow> string \<times> SchemaColumn list \<Rightarrow> ColumnMapping list" where
  "scoreTableColumns userText entry =
     concat (map (\<lambda>col.
        let sc = calculateColumnScore userText col
        in if sc \<ge> -10
           then [\<lparr>tableName = fst entry, score = sc, columnName = column_name col, dataType = data_type col\<rparr>]
           else [])
       (snd entry))"

definition scoreColumns :: "string \<Rightarrow> SchemaColumn list \<Rightarrow> ColumnMapping list" where
  "scoreColumns userText schemaCache =
     concat (map (scoreTableColumns userText) (groupColumnsByTable schemaCache))"

text \<open>\<open>xs.sort((a, b) => b.score - a.score)\<close>: a stable sort, highest score first.\<close>

definition sortByScore :: "('a TableMapping_scheme) list \<Rightarrow> ('a TableMapping_scheme) list" where
  "sortByScore xs = sort_key (\<lambda>x. - score x) xs"

text \<open>\<open>tableScores.set(name, Math.max(tableScores.get(name) || 0, column.score))\<close>.\<close>

definition tableStep :: "(string \<times> int) list \<Rightarrow> ColumnMapping \<Rightarrow> (string \<times> int) list" where
  "tableStep tableScores col =
     (let currentScore = (case map_of tableScores (tableName col) of None \<Rightarrow> 0 | Some s \<Rightarrow> s)
      in mapSet (tableName col) (max currentScore (score col)) tableScores)"

definition tableScoresOf :: "ColumnMapping list \<Rightarrow> (string \<times> int) list" where
  "tableScoresOf cols = foldl tableStep [] cols"

definition boostTables :: "LLMQueryAnalysis \<Rightarrow> TableMapping list \<Rightarrow> TableMapping list" where
  "boostTables llm ts =
     (if length (suggestedTables llm) > 0
      then map (\<lambda>t. if tableName t \<in> set (suggestedTables llm) then t\<lparr>score := score t + 20\<rparr> else t) ts
      else ts)"

definition boostColumns :: "LLMQueryAnalysis \<Rightarrow> ColumnMapping list \<Rightarrow> ColumnMapping list" where
  "boostColumns llm cs =
     (if length (suggestedColumns llm) > 0
      then map (\<lambda>c. if columnName c \<in> set (suggestedColumns llm) then c\<lparr>score := score c + 15\<rparr> else c) cs
      else cs)"

text \<open>The ranked lists of \<open>mapUserQueryToSchema\<close> before it slices them.\<close>

definition rankedColumns :: "SchemaColumn list \<Rightarrow> LLMQueryAnalysis \<Rightarrow> string \<Rightarrow> ColumnMapping list" where
  "rankedColumns schemaCache llm userText =
     sortByScore (boostColumns llm (sortByScore (scoreColumns userText schemaCache)))"

definition rankedTables :: "SchemaColumn list \<Rightarrow> LLMQueryAnalysis \<Rightarrow> string \<Rightarrow> TableMapping list" where
  "rankedTables schemaCache llm userText =
     sortByScore (boostTables llm (sortByScore
       (map (\<lambda>(name, sc). \<lparr>tableName = name, score = sc\<rparr>)
          (tableScoresOf (sortByScore (scoreColumns userText schemaCache))))))"

text \<open>
  \<open>mapUserQueryToSchema\<close>: \<open>llm\<close> is the answer of \<open>analyzeQueryIntent\<close>, an external
  service or its fallback.
\<close>

definition mapUserQueryToSchema ::
  "SchemaColumn list option \<Rightarrow> SchemaColumn list \<Rightarrow> LLMQueryAnalysis \<Rightarrow> string \<Rightarrow> MappingResult" where
  "mapUserQueryToSchema schemaInfo schemaCache llm userText =
     (let cache = ensureFresh schemaInfo schemaCache
      in \<lparr>tables = take 3 (rankedTables cache llm userText),
          suggestedColumnsOf = take 15 (rankedColumns cache llm userText),
          llmAnalysis = llm\<rparr>)"

section \<open>Regular expressions of queryGenerator.ts\<close>

text \<open>
  \<open>text.match(re)\<close> without the \<open>g\<close> flag tries the pattern at every start position
  from the left and returns the first match. Each pattern of the source is written as a
  function on the rest of the text at one start position. A greedy run (\<open>\w+\<close>,
  \<open>\s+\<close>, \<open>\d+\<close>) is the maximal run wherever backtracking to a shorter run cannot
  match what follows; the two places where a shorter match can succeed are alternatives
  tried in the order of the expression.
\<close>

fun firstMatch :: "(string \<Rightarrow> 'a option) \<Rightarrow> string \<Rightarrow> 'a option" where
  "firstMatch at [] = at []"
| "firstMatch at (c # cs) = (case at (c # cs) of Some r \<Rightarrow> Some r | None \<Rightarrow> firstMatch at cs)"

fun firstSome :: "('a \<Rightarrow> 'b option) \<Rightarrow> 'a list \<Rightarrow> 'b option" where
  "firstSome f [] = None"
| "firstSome f (x # xs) = (case f x of Some r \<Rightarrow> Some r | None \<Rightarrow> firstSome f xs)"

definition stripPrefix :: "string \<Rightarrow> string \<Rightarrow> string option" where
  "stripPrefix p s = (if startsWith s p then Some (drop (length p) s) else None)"

text \<open>\<open>\s+\<close>, \<open>\s*\<close>, \<open>\w+\<close>, \<open>\d+\<close> and \<open>\d{4}\<close>: the match and the rest.\<close>

definition spaces1 :: "string \<Rightarrow> string option" where
  "spaces1 s = (if takeWhile isSpace s = [] then None else Some (dropWhile isSpace s))"

definition spaces0 :: "string \<Rightarrow> string" where
  "spaces0 s = dropWhile isSpace s"

definition word1 :: "string \<Rightarrow> (string \<times> string) option" where
  "word1 s = (if takeWhile isWordChar s = [] then None
              else Some (takeWhile isWordChar s, dropWhile isWordChar s))"

definition digits1 :: "string \<Rightarrow> (string \<times> string) option" where
  "digits1 s = (if takeWhile isDigit s = [] then None
                else Some (takeWhile isDigit s, dropWhile isDigit s))"

definition digits4 :: "string \<Rightarrow> (string \<times> string) option" where
  "digits4 s = (if 4 \<le> length s \<and> list_all isDigit (take 4 s) then Some (take 4 s, drop 4 s) else None)"

text \<open>\<open>\d{1,2}\<close>: two digits first, then one.\<close>

definition digits12 :: "string \<Rightarrow> (string \<times> string) list" where
  "digits12 s =
     (if 2 \<le> length s \<and> list_all isDigit (take 2 s) then [(take 2 s, drop 2 s), (take 1 s, drop 1 s)]
      else if 1 \<le> length s \<and> list_all isDigit (take 1 s) then [(take 1 s, drop 1 s)]
      else [])"

text \<open>\<open>/(\w+) (\d{4})/\<close>\<close>

definition monthYearAt :: "string \<Rightarrow> (string \<times> string) option" where
  "monthYearAt s =
     (case word1 s of
        None \<Rightarrow> None
      | Some (month, r) \<Rightarrow>
          (case stripPrefix '' '' r of
             None \<Rightarrow> None
           | Some r' \<Rightarrow> (case digits4 r' of None \<Rightarrow> None | Some (year, _) \<Rightarrow> Some (month, year))))"

definition monthYearMatch :: "string \<Rightarrow> (string \<times> string) option" where
  "monthYearMatch s = firstMatch monthYearAt s"

text \<open>\<open>/first week of (\w+) (\d{4})/\<close>\<close>

definition firstWeekAt :: "string \<Rightarrow> (string \<times> string) option" where
  "firstWeekAt s = (case stripPrefix ''first week of '' s of None \<Rightarrow> None | Some r \<Rightarrow> monthYearAt r)"

definition firstWeekMatch :: "string \<Rightarrow> (string \<times> string) option" where
  "firstWeekMatch s = firstMatch firstWeekAt s"

text \<open>\<open>/(\w+)\s+(\d{4})/\<close> of the last-day rule\<close>

definition monthSpacesYearAt :: "string \<Rightarrow> (string \<times> string) option" where
  "monthSpacesYearAt s =
     (case word1 s of
        None \<Rightarrow> None
      | Some (month, r) \<Rightarrow>
          (case spaces1 r of
             None \<Rightarrow> None
           | Some r' \<Rightarrow> (case digits4 r' of None \<Rightarrow> None | Some (year, _) \<Rightarrow> Some (month, year))))"

definition monthSpacesYearMatch :: "string \<Rightarrow> (string \<times> string) option" where
  "monthSpacesYearMatch s = firstMatch monthSpacesYearAt s"

text \<open>
  The group \<open>(\w+\s+\d{1,2})\<close>: the alternatives (group text, rest), two digits first.
\<close>

definition monthDayGroup :: "string \<Rightarrow> (string \<times> string) list" where
  "monthDayGroup s =
     (case word1 s of
        None \<Rightarrow> []
      | Some (w, r) \<Rightarrow>
          (case spaces1 r of
             None \<Rightarrow> []
           | Some r' \<Rightarrow>
               map (\<lambda>(d, rest). (w @ takeWhile isSpace r @ d, rest)) (digits12 r')))"

text \<open>\<open>/between\s+(\w+\s+\d{1,2})\s+and\s+(\w+\s+\d{1,2})\s*,?\s*(\d{4})/i\<close>\<close>

definition betweenTail :: "string \<Rightarrow> string \<times> string \<Rightarrow> (string \<times> string \<times> string) option" where
  "betweenTail startDateStr alt =
     (let r = spaces0 (snd alt);
          r' = (case stripPrefix '','' r of Some x \<Rightarrow> x | None \<Rightarrow> r)
      in case digits4 (spaces0 r') of
           None \<Rightarrow> None
         | Some (year, _) \<Rightarrow> Some (startDateStr, fst alt, year))"

definition betweenMiddle :: "string \<times> string \<Rightarrow> (string \<times> string \<times> string) option" where
  "betweenMiddle alt =
     (case spaces1 (snd alt) of
        None \<Rightarrow> None
      | Some r \<Rightarrow>
          (case stripPrefix ''and'' r of
             None \<Rightarrow> None
           | Some r' \<Rightarrow>
               (case spaces1 r' of
                  None \<Rightarrow> None
                | Some r'' \<Rightarrow> firstSome (betweenTail (fst alt)) (monthDayGroup r''))))"

definition betweenAt :: "string \<Rightarrow> (string \<times> string \<times> string) option" where
  "betweenAt s =
     (case stripPrefix ''between'' s of
        None \<Rightarrow> None
      | Some r \<Rightarrow>
          (case spaces1 r of None \<Rightarrow> None | Some r' \<Rightarrow> firstSome betweenMiddle (monthDayGroup r')))"

definition betweenMatch :: "string \<Rightarrow> (string \<times> string \<times> string) option" where
  "betweenMatch s = firstMatch betweenAt s"

text \<open>\<open>/(\w+)\s+(\d{1,2})/\<close> on a captured group\<close>

definition monthDayAt :: "string \<Rightarrow> (string \<times> string) option" where
  "monthDayAt s =
     (case word1 s of
        None \<Rightarrow> None
      | Some (w, r) \<Rightarrow>
          (case spaces1 r of
             None \<Rightarrow> None
           | Some r' \<Rightarrow> (case digits12 r' of [] \<Rightarrow> None | (d, _) # _ \<Rightarrow> Some (w, d))))"

definition monthDayMatch :: "string \<Rightarrow> (string \<times> string) option" where
  "monthDayMatch s = firstMatch monthDayAt s"

text \<open>\<open>/(?:precipitation_mm|rain)\s*(>=|<=|=|>|<)\s*(\d+)/i\<close>\<close>

definition comparisonAt :: "string \<Rightarrow> string \<Rightarrow> (string \<times> string) option" where
  "comparisonAt s op =
     (case stripPrefix op s of
        None \<Rightarrow> None
      | Some r \<Rightarrow> (case digits1 (spaces0 r) of None \<Rightarrow> None | Some (n, _) \<Rightarrow> Some (op, n)))"

definition numericAt :: "string \<Rightarrow> (string \<times> string) option" where
  "numericAt s =
     firstSome (\<lambda>subject.
        case stripPrefix subject s of
          None \<Rightarrow> None
        | Some r \<Rightarrow> firstSome (comparisonAt (spaces0 r)) [''>='', ''<='', ''='', ''>'', ''<''])
       [''precipitation_mm'', ''rain'']"

definition numericMatch :: "string \<Rightarrow> (string \<times> string) option" where
  "numericMatch s = firstMatch numericAt s"

text \<open>\<open>/>(\d+)\<degree>?c?/i\<close> and \<open>/<(\d+)\<degree>?c?/i\<close>: the digits after the sign.\<close>

definition signedDigitsAt :: "string \<Rightarrow> string \<Rightarrow> string option" where
  "signedDigitsAt sign s =
     (case stripPrefix sign s of
        None \<Rightarrow> None
      | Some r \<Rightarrow> (case digits1 r of None \<Rightarrow> None | Some (n, _) \<Rightarrow> Some n))"

definition tempMatch :: "string \<Rightarrow> string \<Rightarrow> string option" where
  "tempMatch sign s = firstMatch (signedDigitsAt sign) s"

text \<open>\<open>/(under|over)\s+(\d+)/i\<close>\<close>

definition ageAt :: "string \<Rightarrow> (string \<times> string) option" where
  "ageAt s =
     firstSome (\<lambda>comparison.
        case stripPrefix comparison s of
          None \<Rightarrow> None
        | Some r \<Rightarrow>
            (case spaces1 r of
               None \<Rightarrow> None
             | Some r' \<Rightarrow> (case digits1 r' of None \<Rightarrow> None | Some (n, _) \<Rightarrow> Some (comparison, n))))
       [''under'', ''over'']"

definition ageMatch :: "string \<Rightarrow> (string \<times> string) option" where
  "ageMatch s = firstMatch ageAt s"

text \<open>
  \<open>/\bby\b\s+(?<dim>station|end station|start station|starts|day|date|gender|bike|model|distance|trip distance)/i\<close>:
  the scan carries whether the character before the start position is a word character.
\<close>

definition dimensionNames :: "string list" where
  "dimensionNames = [''station'', ''end station'', ''start station'', ''starts'', ''day'', ''date'', ''gender'',
     ''bike'', ''model'', ''distance'', ''trip distance'']"

definition byDimensionAt :: "string \<Rightarrow> string option" where
  "byDimensionAt s =
     (case stripPrefix ''by'' s of
        None \<Rightarrow> None
      | Some r \<Rightarrow>
          (case spaces1 r of
             None \<Rightarrow> None
           | Some r' \<Rightarrow> List.find (\<lambda>dim. startsWith r' dim) dimensionNames))"

fun byDimensionScan :: "bool \<Rightarrow> string \<Rightarrow> string option" where
  "byDimensionScan afterWord [] = None"
| "byDimensionScan afterWord (c # cs) =
     (case (if afterWord then None else byDimensionAt (c # cs)) of
        Some dim \<Rightarrow> Some dim
      | None \<Rightarrow> byDimensionScan (isWordChar c) cs)"

definition byDimensionMatch :: "string \<Rightarrow> string option" where
  "byDimensionMatch s = byDimensionScan False s"

text \<open>\<open>/top\s+(\d+)/\<close>\<close>

definition topAt :: "string \<Rightarrow> string option" where
  "topAt s =
     (case stripPrefix ''top'' s of
        None \<Rightarrow> None
      | Some r \<Rightarrow>
          (case spaces1 r of
             None \<Rightarrow> None
           | Some r' \<Rightarrow> (case digits1 r' of None \<Rightarrow> None | Some (n, _) \<Rightarrow> Some n)))"

definition topMatch :: "string \<Rightarrow> string option" where
  "topMatch s = firstMatch topAt s"

section \<open>JavaScript dates\<close>

text \<open>
  The environment of a request: the server's time zone as a fixed offset in minutes
  east of UTC (no daylight saving), and the local year and month index of \<open>new Date()\<close>.
\<close>

record Env =
  tzOffsetMinutes :: int
  nowYear :: int
  nowMonth :: int

text \<open>Days since 1970-01-01 of a proleptic Gregorian date, and back.\<close>

text \<open>
  The year is counted from 1 March: \<open>shiftedYear\<close> is the year a month belongs to then,
  \<open>dayOfYear\<close> the day in that year from 0, and an era is 400 years, 146097 days.
\<close>

definition shiftedYear :: "int \<Rightarrow> int \<Rightarrow> int" where
  "shiftedYear y m = (if m \<le> 2 then y - 1 else y)"

definition dayOfYear :: "int \<Rightarrow> int \<Rightarrow> int" where
  "dayOfYear m d = (153 * (if m > 2 then m - 3 else m + 9) + 2) div 5 + d - 1"

definition dayOfEra :: "int \<Rightarrow> int \<Rightarrow> int" where
  "dayOfEra yoe doy = yoe * 365 + yoe div 4 - yoe div 100 + doy"

definition daysFromCivil :: "int \<Rightarrow> int \<Rightarrow> int \<Rightarrow> int" where
  "daysFromCivil y m d =
     (shiftedYear y m div 400) * 146097 +
     dayOfEra (shiftedYear y m mod 400) (dayOfYear m d) - 719468"

definition yearOfEra :: "int \<Rightarrow> int" where
  "yearOfEra doe = (doe - doe div 1460 + doe div 36524 - doe div 146096) div 365"

definition dayOfShiftedYear :: "int \<Rightarrow> int \<Rightarrow> int" where
  "dayOfShiftedYear doe yoe = doe - (365 * yoe + yoe div 4 - yoe div 100)"

definition shiftedMonth :: "int \<Rightarrow> int" where
  "shiftedMonth doy = (5 * doy + 2) div 153"

definition civilOf :: "int \<Rightarrow> int \<Rightarrow> int \<Rightarrow> int \<Rightarrow> int \<times> int \<times> int" where
  "civilOf era yoe doy mp =
     ((if (if mp < 10 then mp + 3 else mp - 9) \<le> 2 then yoe + era * 400 + 1 else yoe + era * 400),
      (if mp < 10 then mp + 3 else mp - 9),
      doy - (153 * mp + 2) div 5 + 1)"

definition civilInEra :: "int \<Rightarrow> int \<Rightarrow> int \<times> int \<times> int" where
  "civilInEra era doe =
     civilOf era (yearOfEra doe) (dayOfShiftedYear doe (yearOfEra doe))
       (shiftedMonth (dayOfShiftedYear doe (yearOfEra doe)))"

definition civilFromDays :: "int \<Rightarrow> int \<times> int \<times> int" where
  "civilFromDays z = civilInEra ((z + 719468) div 146097) ((z + 719468) mod 146097)"

text \<open>
  \<open>new Date(year, monthIndex, day)\<close>: a year from 0 to 99 means 1900 + year, a month
  index or a day out of range carries over, and the fields are local time. A date is held
  as minutes since the epoch in UTC; \<open>getTime()\<close> counts milliseconds, 60000 to a minute.
\<close>

definition fullYear :: "int \<Rightarrow> int" where
  "fullYear year = (if 0 \<le> year \<and> year \<le> 99 then 1900 + year else year)"

definition newDate :: "Env \<Rightarrow> int \<Rightarrow> int \<Rightarrow> int \<Rightarrow> int" where
  "newDate env year monthIndex day =
     (daysFromCivil (fullYear year + monthIndex div 12) (monthIndex mod 12 + 1) 1 + (day - 1)) * 1440
       - tzOffsetMinutes env"

definition padStart :: "nat \<Rightarrow> string \<Rightarrow> string" where
  "padStart n s = replicate (n - length s) CHR ''0'' @ s"

text \<open>\<open>date.toISOString().split('T')[0]\<close>: the UTC calendar date.\<close>

definition isoYear :: "int \<Rightarrow> string" where
  "isoYear y =
     (if 0 \<le> y \<and> y \<le> 9999 then padStart 4 (showNat (nat y))
      else (if y < 0 then ''-'' else ''+'') @ padStart 6 (showNat (nat \<bar>y\<bar>)))"

definition isoOfCivil :: "int \<times> int \<times> int \<Rightarrow> string" where
  "isoOfCivil ymd =
     isoYear (fst ymd) @ ''-'' @ padStart 2 (showNat (nat (fst (snd ymd)))) @ ''-'' @
     padStart 2 (showNat (nat (snd (snd ymd))))"

definition toISODate :: "int \<Rightarrow> string" where
  "toISODate t = isoOfCivil (civilFromDays (t div 1440))"

section \<open>The date phrase resolver (parseDateExpressions)\<close>

fun indexOf :: "'a list \<Rightarrow> 'a \<Rightarrow> int" where
  "indexOf [] x = - 1"
| "indexOf (y # ys) x = (if y = x then 0 else (let i = indexOf ys x in if i = - 1 then - 1 else i + 1))"

definition months :: "string list" where
  "months = [''january'', ''february'', ''march'', ''april'', ''may'', ''june'',
     ''july'', ''august'', ''september'', ''october'', ''november'', ''december'']"

definition getMonthIndex :: "string \<Rightarrow> int" where
  "getMonthIndex month = indexOf months (toLowerCase month)"

text \<open>The four rules, each the pair of instants it resolves to when it applies.\<close>

definition firstWeekRule :: "Env \<Rightarrow> string \<Rightarrow> (int \<times> int) option" where
  "firstWeekRule env lowerText =
     (case firstWeekMatch lowerText of
        None \<Rightarrow> None
      | Some (month, year) \<Rightarrow>
          (let monthIndex = getMonthIndex month in
           if monthIndex \<noteq> - 1
           then (let startDate = newDate env (int (parseInt year)) monthIndex 1
                 in Some (startDate, startDate + 7 * 24 * 60))
           else None))"

definition betweenRule :: "Env \<Rightarrow> string \<Rightarrow> (int \<times> int) option" where
  "betweenRule env lowerText =
     (case betweenMatch lowerText of
        None \<Rightarrow> None
      | Some (startDateStr, endDateStr, year) \<Rightarrow>
          (case monthDayMatch startDateStr of
             None \<Rightarrow> None
           | Some (startMonth, startDay) \<Rightarrow>
               (case monthDayMatch endDateStr of
                  None \<Rightarrow> None
                | Some (endMonth, endDay) \<Rightarrow>
                    (let startMonthIndex = getMonthIndex startMonth;
                         endMonthIndex = getMonthIndex endMonth
                     in if startMonthIndex \<noteq> - 1 \<and> endMonthIndex \<noteq> - 1
                        then Some (newDate env (int (parseInt year)) startMonthIndex (int (parseInt startDay)),
                                   newDate env (int (parseInt year)) endMonthIndex (int (parseInt endDay) + 1))
                        else None))))"

definition monthYearRule :: "Env \<Rightarrow> string \<Rightarrow> (int \<times> int) option" where
  "monthYearRule env lowerText =
     (case monthYearMatch lowerText of
        None \<Rightarrow> None
      | Some (month, year) \<Rightarrow>
          (let monthIndex = getMonthIndex month in
           if monthIndex \<noteq> - 1
           then Some (newDate env (int (parseInt year)) monthIndex 1,
                      newDate env (int (parseInt year)) (monthIndex + 1) 1)
           else None))"

definition lastMonthRule :: "Env \<Rightarrow> string \<Rightarrow> (int \<times> int) option" where
  "lastMonthRule env lowerText =
     (if includesStr lowerText ''last month''
      then Some (newDate env (nowYear env) (nowMonth env - 1) 1, newDate env (nowYear env) (nowMonth env) 0)
      else None)"

definition resolveDates :: "Env \<Rightarrow> string \<Rightarrow> (int \<times> int) option" where
  "resolveDates env text =
     (if text = [] then None
      else
        let lowerText = toLowerCase text in
        case firstWeekRule env lowerText of
          Some r \<Rightarrow> Some r
        | None \<Rightarrow>
            (case betweenRule env lowerText of
               Some r \<Rightarrow> Some r
             | None \<Rightarrow>
                 (case monthYearRule env lowerText of
                    Some r \<Rightarrow> Some r
                  | None \<Rightarrow> lastMonthRule env lowerText)))"

record DateInfo =
  startDate :: string
  endDate :: string

definition parseDateExpressions :: "Env \<Rightarrow> string \<Rightarrow> DateInfo option" where
  "parseDateExpressions env text =
     map_option (\<lambda>(s, e). \<lparr>startDate = toISODate s, endDate = toISODate e\<rparr>) (resolveDates env text)"


section \<open>Plans, filters and aggregations (queryGenerator.ts)\<close>

datatype jsValue = VStr string | VNum int | VNull | VList "jsValue list"

text \<open>The exceptions that reach the caller of \<open>generateQuery\<close>.\<close>

datatype error = NoRelevantTables | RangeError | TypeError

record Filter =
  column :: string
  operator :: string
  fvalue :: jsValue

record Aggregation =
  aggFunction :: string
  aggColumn :: string
  aggAlias :: string

definition includesAny :: "string \<Rightarrow> string list \<Rightarrow> bool" where
  "includesAny s needles = list_ex (\<lambda>needle. includesStr s needle) needles"

subsection \<open>parseAggregations\<close>

definition safeAggregationColumns :: "ColumnMapping list \<Rightarrow> ColumnMapping list" where
  "safeAggregationColumns columns = filter (\<lambda>col. columnName col \<noteq> [] \<and> dataType col \<noteq> []) columns"

text \<open>PRIORITY 0, outside the cascade: the average ride time.\<close>

definition durationAggregations :: "string \<Rightarrow> Aggregation list" where
  "durationAggregations lowerText =
     (if includesStr lowerText ''average'' \<and>
         (includesStr lowerText ''ride time'' \<or> includesStr lowerText ''ride time'' \<or> includesStr lowerText ''journey'')
      then [\<lparr>aggFunction = ''AVG'', aggColumn = ''duration_calculated'', aggAlias = ''average_ride_time_minutes''\<rparr>]
      else [])"

definition distanceAggregations :: "ColumnMapping list \<Rightarrow> Aggregation list" where
  "distanceAggregations safeColumns =
     (case filter (\<lambda>col. includesStr (toLowerCase (columnName col)) ''distance'' \<or>
                         includesStr (toLowerCase (columnName col)) ''km'' \<or>
                         includesStr (toLowerCase (columnName col)) ''meters'') safeColumns of
        [] \<Rightarrow> []
      | distanceColumn # _ \<Rightarrow>
          (if includesStr (toLowerCase (columnName distanceColumn)) ''km''
           then [\<lparr>aggFunction = ''SUM'', aggColumn = columnName distanceColumn, aggAlias = ''total_kilometres''\<rparr>]
           else if includesStr (toLowerCase (columnName distanceColumn)) ''meters''
           then [\<lparr>aggFunction = ''SUM'', aggColumn = columnName distanceColumn, aggAlias = ''total_kilometres''\<rparr>]
           else [\<lparr>aggFunction = ''SUM'', aggColumn = columnName distanceColumn, aggAlias = ''total_distance''\<rparr>]))"

definition topByAverageAggregations :: "string \<Rightarrow> Aggregation list" where
  "topByAverageAggregations lowerText =
     (if includesStr lowerText ''distance'' \<or> includesStr lowerText ''trip distance''
      then [\<lparr>aggFunction = ''AVG'', aggColumn = ''trip_distance_km'', aggAlias = ''average_distance''\<rparr>]
      else if includesStr lowerText ''duration'' \<or> includesStr lowerText ''ride time''
      then [\<lparr>aggFunction = ''AVG'', aggColumn = ''duration_calculated'', aggAlias = ''average_duration''\<rparr>]
      else [\<lparr>aggFunction = ''AVG'', aggColumn = ''trip_distance_km'', aggAlias = ''average_value''\<rparr>])"

definition genericAverageAggregations :: "ColumnMapping list \<Rightarrow> Aggregation list" where
  "genericAverageAggregations safeColumns =
     (let numericColumns = filter (\<lambda>col. includesStr (dataType col) ''numeric'' \<or>
                                          includesStr (dataType col) ''integer'' \<or>
                                          includesStr (dataType col) ''double'') safeColumns
      in if length numericColumns > 0
         then
           (case filter (\<lambda>col. \<not> includesStr (columnName col) ''id'' \<and>
                               \<not> includesStr (columnName col) ''_id'' \<and>
                               columnName col \<noteq> ''trip_id'' \<and>
                               columnName col \<noteq> ''bike_id'' \<and>
                               columnName col \<noteq> ''station_id'') numericColumns of
              [] \<Rightarrow> [\<lparr>aggFunction = ''COUNT'', aggColumn = ''*'', aggAlias = ''total_count''\<rparr>]
            | meaningful # _ \<Rightarrow>
                [\<lparr>aggFunction = ''AVG'', aggColumn = columnName meaningful, aggAlias = ''average_value''\<rparr>])
         else [])"

definition countStar :: "string \<Rightarrow> Aggregation" where
  "countStar name = \<lparr>aggFunction = ''COUNT'', aggColumn = ''*'', aggAlias = name\<rparr>"

text \<open>The vocabulary tests of the \<open>else if\<close> cascade, in its order.\<close>

definition isDistanceText :: "string \<Rightarrow> bool" where
  "isDistanceText lowerText =
     (includesStr lowerText ''kilometres'' \<or> includesStr lowerText ''kilometers'' \<or>
      includesStr lowerText ''distance'' \<or>
      (includesStr lowerText ''how many'' \<and>
       (includesStr lowerText ''kilometres'' \<or> includesStr lowerText ''kilometers'')))"

definition isRankingText :: "string \<Rightarrow> bool" where
  "isRankingText lowerText =
     (includesStr lowerText ''most'' \<or> includesStr lowerText ''highest'' \<or> includesStr lowerText ''busiest'' \<or>
      (includesStr lowerText ''which'' \<and> includesStr lowerText ''departures'') \<or>
      (includesStr lowerText ''which'' \<and> includesStr lowerText ''station'') \<or>
      (includesStr lowerText ''which'' \<and> includesStr lowerText ''dock'') \<or>
      (includesStr lowerText ''which'' \<and> includesStr lowerText ''docking''))"

definition isSpeedText :: "string \<Rightarrow> bool" where
  "isSpeedText lowerText =
     (includesStr lowerText ''speed'' \<or> includesStr lowerText ''pace'' \<or> includesStr lowerText ''km/h'' \<or>
      includesStr lowerText ''kph'' \<or> includesStr lowerText ''mph'' \<or> includesStr lowerText ''average speed'')"

definition speedAggregation :: Aggregation where
  "speedAggregation = \<lparr>aggFunction = ''SPEED'', aggColumn = ''speed_calculated'', aggAlias = ''average_speed_kmh''\<rparr>"

definition cascadeAggregations :: "string \<Rightarrow> ColumnMapping list \<Rightarrow> Aggregation list" where
  "cascadeAggregations lowerText safeColumns =
     (if isDistanceText lowerText then distanceAggregations safeColumns
      else if isRankingText lowerText then [countStar ''departure_count'']
      else if includesStr lowerText ''how many'' \<or> includesStr lowerText ''count'' then [countStar ''total_count'']
      else if includesStr lowerText ''total rides'' \<or> includesStr lowerText ''number of departures'' \<or>
              (includesStr lowerText ''rides'' \<and> includesStr lowerText ''total'')
      then [countStar ''total_rides'']
      else if includesStr lowerText ''daily totals'' \<or> includesStr lowerText ''daily totals of''
      then [countStar ''ride_count'']
      else if includesStr lowerText ''top'' \<and> includesStr lowerText ''by'' \<and>
              (includesStr lowerText ''average'' \<or> includesStr lowerText ''avg'')
      then topByAverageAggregations lowerText
      else if includesStr lowerText ''under'' \<or> includesStr lowerText ''over'' \<or> includesStr lowerText ''age''
      then []
      else if includesStr lowerText ''departures on weekends'' \<or> includesStr lowerText ''weekend departures''
      then [countStar ''weekend_departures'']
      else if includesStr lowerText ''top 3'' \<and> includesStr lowerText ''average trip distance''
      then [\<lparr>aggFunction = ''AVG'', aggColumn = ''trip_distance_km'', aggAlias = ''average_distance''\<rparr>]
      else if includesStr lowerText ''most arrivals'' \<or> includesStr lowerText ''destination station had the most''
      then [countStar ''arrival_count'']
      else if includesStr lowerText ''sum distance by end station'' \<or> includesStr lowerText ''distance by end station''
      then [\<lparr>aggFunction = ''SUM'', aggColumn = ''trip_distance_km'', aggAlias = ''total_kilometres''\<rparr>]
      else if includesStr lowerText ''busiest station by starts'' \<or> includesStr lowerText ''station by starts''
      then [countStar ''departure_count'']
      else if includesStr lowerText ''total rides last month'' \<or> includesStr lowerText ''rides last month''
      then [countStar ''total_rides'']
      else if includesStr lowerText ''rainy weekdays'' \<or> includesStr lowerText ''rainy weekday''
      then [\<lparr>aggFunction = ''SUM'', aggColumn = ''trip_distance_km'', aggAlias = ''total_kilometres''\<rparr>]
      else if isSpeedText lowerText then [speedAggregation]
      else if includesStr lowerText ''purchase'' \<or> includesStr lowerText ''purchased'' \<or>
              includesStr lowerText ''bought'' \<or> includesStr lowerText ''acquisition'' \<or>
              includesStr lowerText ''show bikes''
      then []
      else if includesStr lowerText ''average'' \<or> includesStr lowerText ''avg''
      then genericAverageAggregations safeColumns
      else [])"

definition parseAggregations :: "string \<Rightarrow> ColumnMapping list \<Rightarrow> Aggregation list" where
  "parseAggregations text columns =
     (let safeColumns = safeAggregationColumns columns;
          lowerText = toLowerCase text
      in durationAggregations lowerText @ cascadeAggregations lowerText safeColumns)"

subsection \<open>parseFilters\<close>

definition isDateType :: "ColumnMapping \<Rightarrow> bool" where
  "isDateType col = (includesStr (dataType col) ''timestamp'' \<or> includesStr (dataType col) ''date'')"

text \<open>The date column: the column object the source picks, here by its name.\<close>

definition chooseDateColumn :: "string \<Rightarrow> ColumnMapping list \<Rightarrow> string \<Rightarrow> string option" where
  "chooseDateColumn lowerText safeColumns primaryTable =
     (let dateColumn =
            (if includesAny lowerText [''departures'', ''journeys'', ''trips'', ''ride'', ''docking'', ''women'',
                  ''female'', ''which'', ''most'']
             then (case List.find (\<lambda>col. includesStr (columnName col) ''started'' \<and> tableName col = ''trips'')
                          safeColumns of
                     Some col \<Rightarrow> Some (columnName col)
                   | None \<Rightarrow> Some ''started_at'')
             else if includesStr lowerText ''weather'' \<and> \<not> includesStr lowerText ''women'' \<and>
                     \<not> includesStr lowerText ''female'' \<and> \<not> includesStr lowerText ''ride''
             then map_option columnName
                    (List.find (\<lambda>col. includesStr (columnName col) ''weather'' \<and> tableName col = ''daily_weather'')
                       safeColumns)
             else None);
          dateColumn2 =
            (case dateColumn of
               Some c \<Rightarrow> Some c
             | None \<Rightarrow> map_option columnName
                         (List.find (\<lambda>col. isDateType col \<and> tableName col = primaryTable) safeColumns))
      in case dateColumn2 of
           Some c \<Rightarrow> Some c
         | None \<Rightarrow> map_option columnName (List.find isDateType safeColumns))"

definition dateFilters :: "Env \<Rightarrow> string \<Rightarrow> ColumnMapping list \<Rightarrow> string \<Rightarrow> Filter list" where
  "dateFilters env text safeColumns primaryTable =
     (let lowerText = toLowerCase text;
          parsed = parseDateExpressions env text;
          dateInfo = (if parsed = None \<and> includesStr lowerText ''first week of''
                      then parseDateExpressions env text else parsed)
      in case dateInfo of
           None \<Rightarrow> []
         | Some info \<Rightarrow>
             (case chooseDateColumn lowerText safeColumns primaryTable of
                None \<Rightarrow> []
              | Some name \<Rightarrow>
                  [\<lparr>column = name, operator = ''>='', fvalue = VStr (startDate info)\<rparr>,
                   \<lparr>column = name, operator = ''<'', fvalue = VStr (endDate info)\<rparr>]))"

definition isWomenText :: "string \<Rightarrow> bool" where
  "isWomenText lowerText =
     (includesStr lowerText ''women'' \<or> includesStr lowerText ''female'' \<or> includesStr lowerText ''woman'')"

definition isMenText :: "string \<Rightarrow> bool" where
  "isMenText lowerText = (includesStr lowerText ''men'' \<or> includesStr lowerText ''male'')"

definition womenGenderColumns :: "ColumnMapping list \<Rightarrow> ColumnMapping list" where
  "womenGenderColumns safeColumns =
     filter (\<lambda>col. includesStr (toLowerCase (columnName col)) ''gender'' \<and>
                   includesStr (dataType col) ''character'' \<and>
                   tableName col = ''trips'') safeColumns"

definition menGenderColumns :: "ColumnMapping list \<Rightarrow> ColumnMapping list" where
  "menGenderColumns safeColumns =
     filter (\<lambda>col. (includesStr (toLowerCase (columnName col)) ''gender'' \<or>
                    includesStr (toLowerCase (columnName col)) ''rider'') \<and>
                   tableName col = ''trips'') safeColumns"

definition genderFilters :: "string \<Rightarrow> ColumnMapping list \<Rightarrow> Filter list" where
  "genderFilters lowerText safeColumns =
     (if isWomenText lowerText
      then (case womenGenderColumns safeColumns of
              [] \<Rightarrow> []
            | genderColumn # _ \<Rightarrow>
                [\<lparr>column = columnName genderColumn, operator = ''='', fvalue = VStr ''female''\<rparr>])
      else if isMenText lowerText
      then (case menGenderColumns safeColumns of
              [] \<Rightarrow> []
            | genderColumn # _ \<Rightarrow>
                [\<lparr>column = columnName genderColumn, operator = ''ILIKE'', fvalue = VStr ''%male%''\<rparr>])
      else [])"

definition locationFilters :: "string \<Rightarrow> ColumnMapping list \<Rightarrow> Filter list" where
  "locationFilters lowerText safeColumns =
     (if includesStr lowerText ''congress avenue'' \<or> includesStr lowerText ''congress ave'' \<or>
         includesStr lowerText ''congress''
      then (case filter (\<lambda>col. includesStr (toLowerCase (columnName col)) ''station'' \<and>
                               includesStr (dataType col) ''character'' \<and>
                               tableName col = ''stations'') safeColumns of
              [] \<Rightarrow> []
            | stationColumn # _ \<Rightarrow>
                [\<lparr>column = columnName stationColumn, operator = ''='', fvalue = VStr ''Congress Avenue''\<rparr>])
      else [])"

definition isRainText :: "string \<Rightarrow> bool" where
  "isRainText lowerText =
     (includesStr lowerText ''rainy'' \<or> includesStr lowerText ''rain'' \<or> includesStr lowerText ''wet'')"

definition weatherFilters :: "string \<Rightarrow> Filter list" where
  "weatherFilters lowerText =
     (if isRainText lowerText
      then [\<lparr>column = ''precipitation_mm'', operator = ''>'', fvalue = VNum 0\<rparr>] else []) @
     (if includesStr lowerText ''precipitation_mm'' \<or>
         (includesStr lowerText ''rain'' \<and>
          (includesStr lowerText ''>='' \<or> includesStr lowerText ''<='' \<or> includesStr lowerText ''=''))
      then (case numericMatch lowerText of
              None \<Rightarrow> []
            | Some (op, n) \<Rightarrow>
                [\<lparr>column = ''precipitation_mm'', operator = op, fvalue = VNum (int (parseInt n))\<rparr>])
      else []) @
     (if (includesStr lowerText ''non-rainy'' \<or> includesStr lowerText ''dry'' \<or>
          includesStr lowerText ''not rainy'') \<and>
         \<not> includesStr lowerText ''rainy'' \<and> \<not> includesStr lowerText ''rain'' \<and>
         \<not> includesStr lowerText ''wet''
      then [\<lparr>column = ''precipitation_mm'', operator = ''='', fvalue = VNum 0\<rparr>] else [])"

text \<open>The degree sign of \<open>30\<degree>c\<close> is the code unit 176.\<close>

definition degreeC :: "string \<Rightarrow> string" where
  "degreeC n = n @ [CHR 0xB0, CHR ''c'']"

definition temperatureFilters :: "string \<Rightarrow> Filter list" where
  "temperatureFilters lowerText =
     (if includesStr lowerText ''hot'' \<or> includesStr lowerText ''>30'' \<or> includesStr lowerText (degreeC ''30'')
      then [\<lparr>column = ''high_temp_c'', operator = ''>'',
             fvalue = VNum (case tempMatch ''>'' lowerText of Some n \<Rightarrow> int (parseInt n) | None \<Rightarrow> 30)\<rparr>]
      else if includesStr lowerText ''cold'' \<or> includesStr lowerText ''<0'' \<or> includesStr lowerText (degreeC ''0'')
      then [\<lparr>column = ''low_temp_c'', operator = ''<'',
             fvalue = VNum (case tempMatch ''<'' lowerText of Some n \<Rightarrow> int (parseInt n) | None \<Rightarrow> 0)\<rparr>]
      else [])"

definition ageFilters :: "string \<Rightarrow> Filter list" where
  "ageFilters lowerText =
     (if includesStr lowerText ''under'' \<or> includesStr lowerText ''over'' \<or> includesStr lowerText ''age''
      then (case ageMatch lowerText of
              None \<Rightarrow> []
            | Some (comparison, n) \<Rightarrow>
                (let ageThreshold = int (parseInt n); currentYear = 2025 in
                 if comparison = ''under''
                 then [\<lparr>column = ''rider_birth_year'', operator = ''>'', fvalue = VNum (currentYear - ageThreshold)\<rparr>]
                 else if comparison = ''over''
                 then [\<lparr>column = ''rider_birth_year'', operator = ''<'', fvalue = VNum (currentYear - ageThreshold)\<rparr>]
                 else []))
      else [])"

definition weekFilters :: "string \<Rightarrow> Filter list" where
  "weekFilters lowerText =
     (if includesStr lowerText ''weekend'' \<or> includesStr lowerText ''weekends''
      then [\<lparr>column = ''started_at'', operator = ''WEEKEND'', fvalue = VNull\<rparr>] else []) @
     (if includesStr lowerText ''weekday'' \<or> includesStr lowerText ''weekdays''
      then [\<lparr>column = ''started_at'', operator = ''WEEKDAY'', fvalue = VNull\<rparr>] else [])"

text \<open>
  \<open>getMonthNumber\<close>: \<open>monthMap[name] || 0\<close>. \<open>monthMap\<close> is an object literal, so the
  all-lowercase keys it inherits (\<open>constructor\<close>, \<open>__proto__\<close>) give a value that is not
  a number: \<open>None\<close> here.
\<close>

definition monthMap :: "(string \<times> int) list" where
  "monthMap = [(''january'', 0), (''jan'', 0), (''february'', 1), (''feb'', 1), (''march'', 2), (''mar'', 2),
     (''april'', 3), (''apr'', 3), (''may'', 4), (''june'', 5), (''jun'', 5), (''july'', 6), (''jul'', 6),
     (''august'', 7), (''aug'', 7), (''september'', 8), (''sep'', 8), (''sept'', 8), (''october'', 9),
     (''oct'', 9), (''november'', 10), (''nov'', 10), (''december'', 11), (''dec'', 11)]"

definition getMonthNumber :: "string \<Rightarrow> int option" where
  "getMonthNumber monthName =
     (if toLowerCase monthName \<in> set [''constructor'', ''__proto__''] then None
      else (case map_of monthMap (toLowerCase monthName) of Some n \<Rightarrow> Some n | None \<Rightarrow> Some 0))"

text \<open>
  The last-day rule replaces the date filters gathered so far. A month number that is
  not a number makes an invalid date, on which \<open>toISOString\<close> throws a \<open>RangeError\<close>.
\<close>

definition lastDayOverride :: "Env \<Rightarrow> string \<Rightarrow> Filter list \<Rightarrow> error + Filter list" where
  "lastDayOverride env lowerText filters =
     (if includesStr lowerText ''last day'' \<or> includesStr lowerText ''last day of''
      then (case monthSpacesYearMatch lowerText of
              None \<Rightarrow> Inr filters
            | Some (month, year) \<Rightarrow>
                (case getMonthNumber month of
                   None \<Rightarrow> Inl RangeError
                 | Some monthNumber \<Rightarrow>
                     (let lastDayStr = toISODate (newDate env (int (parseInt year)) monthNumber 0);
                          nextMonthStr = toISODate (newDate env (int (parseInt year)) monthNumber 1);
                          nonDateFilters = filter (\<lambda>f. \<not> includesStr (column f) ''started_at'' \<and>
                                                        \<not> includesStr (column f) ''ended_at'') filters
                      in Inr (nonDateFilters @
                         [\<lparr>column = ''started_at'', operator = ''>='', fvalue = VStr lastDayStr\<rparr>,
                          \<lparr>column = ''started_at'', operator = ''<'', fvalue = VStr nextMonthStr\<rparr>]))))
      else Inr filters)"

definition dimensionFilters :: "string \<Rightarrow> Filter list" where
  "dimensionFilters lowerText =
     (case byDimensionMatch lowerText of
        None \<Rightarrow> []
      | Some matched \<Rightarrow>
          (let dimension = toLowerCase matched in
           if dimension = ''station'' \<or> dimension = ''end station'' \<or> dimension = ''start station'' \<or>
              dimension = ''starts''
           then [\<lparr>column = ''group_by_station'', operator = ''DIMENSION'', fvalue = VStr dimension\<rparr>]
           else if dimension = ''distance'' \<or> dimension = ''trip distance''
           then [\<lparr>column = ''group_by_station'', operator = ''DIMENSION'', fvalue = VStr dimension\<rparr>]
           else if dimension = ''day'' \<or> dimension = ''date''
           then [\<lparr>column = ''group_by_date'', operator = ''DIMENSION'', fvalue = VStr dimension\<rparr>]
           else if dimension = ''gender''
           then [\<lparr>column = ''group_by_gender'', operator = ''DIMENSION'', fvalue = VStr dimension\<rparr>]
           else if dimension = ''bike'' \<or> dimension = ''model''
           then [\<lparr>column = ''group_by_bike'', operator = ''DIMENSION'', fvalue = VStr dimension\<rparr>]
           else []))"

text \<open>The filters pushed before the last-day rule, in the order of the source.\<close>

definition vocabularyFilters :: "Env \<Rightarrow> string \<Rightarrow> ColumnMapping list \<Rightarrow> string \<Rightarrow> Filter list" where
  "vocabularyFilters env text safeColumns primaryTable =
     (let lowerText = toLowerCase text
      in dateFilters env text safeColumns primaryTable @
         genderFilters lowerText safeColumns @
         locationFilters lowerText safeColumns @
         weatherFilters lowerText @
         temperatureFilters lowerText @
         ageFilters lowerText @
         weekFilters lowerText)"

definition parseFilters :: "Env \<Rightarrow> string \<Rightarrow> ColumnMapping list \<Rightarrow> string \<Rightarrow> error + Filter list" where
  "parseFilters env text columns primaryTable =
     (if text = [] then Inr []
      else
        let safeColumns = columns;
            lowerText = toLowerCase text
        in case lastDayOverride env lowerText (vocabularyFilters env text safeColumns primaryTable) of
             Inl e \<Rightarrow> Inl e
           | Inr filters \<Rightarrow> Inr (filters @ dimensionFilters lowerText))"


subsection \<open>buildSQLQuery\<close>

record BuiltQuery =
  sql :: string
  params :: "jsValue list"

record ParsedQuery = BuiltQuery +
  queryTables :: "string list"
  queryColumns :: "string list"
  queryAggregations :: "Aggregation list"
  queryFilters :: "Filter list"

text \<open>
  \<open>getTableAlias\<close>: \<open>aliasMap[tableName] || 't'\<close>; the last two entries are the text
  of the values the object literal inherits under its all-lowercase keys.
\<close>

definition getTableAlias :: "string \<Rightarrow> string" where
  "getTableAlias table =
     (case map_of [(''trips'', ''t''), (''stations'', ''s''), (''daily_weather'', ''w''), (''bikes'', ''b''),
                   (''constructor'', ''function Object() { [native code] }''),
                   (''__proto__'', ''[object Object]'')] table of
        Some a \<Rightarrow> a
      | None \<Rightarrow> ''t'')"

definition isSpeedQuery :: "string \<Rightarrow> bool" where
  "isSpeedQuery userText = isSpeedText (toLowerCase userText)"

definition isBikeRelatedQuery :: "string \<Rightarrow> bool" where
  "isBikeRelatedQuery userText =
     (let lowerText = toLowerCase userText in
      (includesStr lowerText ''bikes'' \<and>
       (includesStr lowerText ''purchased'' \<or> includesStr lowerText ''bought'' \<or>
        includesStr lowerText ''acquisition'' \<or> includesStr lowerText ''show bikes'')) \<or>
      (includesStr lowerText ''bike'' \<and>
       (includesStr lowerText ''where'' \<or> includesStr lowerText ''currently'' \<or>
        includesStr lowerText ''docked'')))"

text \<open>\<open>xs.join(sep)\<close>\<close>

fun joinWith :: "string \<Rightarrow> string list \<Rightarrow> string" where
  "joinWith sep [] = []"
| "joinWith sep [x] = x"
| "joinWith sep (x # y # ys) = x @ sep @ joinWith sep (y # ys)"

text \<open>The ranking test of the SELECT and GROUP BY clauses, on the lowered question.\<close>

definition isRankingQuery :: "string \<Rightarrow> bool" where
  "isRankingQuery lowerText =
     (includesStr lowerText ''most'' \<or> includesStr lowerText ''highest'' \<or> includesStr lowerText ''busiest'' \<or>
      (includesStr lowerText ''which'' \<and> includesStr lowerText ''departures'') \<or>
      (includesStr lowerText ''which'' \<and> includesStr lowerText ''station''))"

definition durationExpression :: string where
  "durationExpression = ''ROUND(AVG(EXTRACT(EPOCH FROM (t.ended_at - t.started_at)) / 60)::numeric, 0) AS ''"

definition sumKilometres :: "string \<Rightarrow> Aggregation \<Rightarrow> string" where
  "sumKilometres primaryAlias agg =
     (if includesStr (aggColumn agg) ''meters''
      then ''ROUND(SUM('' @ primaryAlias @ ''.'' @ aggColumn agg @ '') * 0.001, 1) AS '' @ aggAlias agg
      else ''ROUND(SUM('' @ primaryAlias @ ''.'' @ aggColumn agg @ ''), 1) AS '' @ aggAlias agg)"

definition plainAggregation :: "string \<Rightarrow> Aggregation \<Rightarrow> string" where
  "plainAggregation primaryAlias agg =
     aggFunction agg @ ''('' @ primaryAlias @ ''.'' @ aggColumn agg @ '') AS '' @ aggAlias agg"

text \<open>One entry of \<open>aggregationClauses\<close>.\<close>

definition aggregationClause :: "string \<Rightarrow> Aggregation \<Rightarrow> string" where
  "aggregationClause primaryAlias agg =
     (if aggColumn agg = ''duration_calculated'' then durationExpression @ aggAlias agg
      else if aggFunction agg = ''COUNT'' \<and> aggColumn agg = ''*'' then ''COUNT(*) AS '' @ aggAlias agg
      else if aggFunction agg = ''SUM'' \<and> aggAlias agg = ''total_kilometres'' then sumKilometres primaryAlias agg
      else plainAggregation primaryAlias agg)"

text \<open>The single aggregate of a scalar query.\<close>

definition scalarAggregationClause :: "string \<Rightarrow> ColumnMapping list \<Rightarrow> Aggregation \<Rightarrow> string" where
  "scalarAggregationClause primaryAlias columns primaryAggregation =
     (if \<not> list_ex (\<lambda>col. columnName col = aggColumn primaryAggregation) columns
      then ''COUNT(*) AS '' @ aggAlias primaryAggregation
      else if aggColumn primaryAggregation = ''duration_calculated''
      then durationExpression @ aggAlias primaryAggregation
      else if aggFunction primaryAggregation = ''SUM'' \<and> aggAlias primaryAggregation = ''total_kilometres''
      then sumKilometres primaryAlias primaryAggregation
      else if aggFunction primaryAggregation = ''SPEED''
      then ''ROUND((SUM(t.trip_distance_km) / NULLIF(SUM(EXTRACT(EPOCH FROM (t.ended_at - t.started_at))) / 3600.0, 0)), 1) AS ''
           @ aggAlias primaryAggregation
      else plainAggregation primaryAlias primaryAggregation)"

definition isScalarAggregation :: "string \<Rightarrow> bool" where
  "isScalarAggregation lowerText =
     (\<not> includesStr lowerText ''most'' \<and> \<not> includesStr lowerText ''docking'' \<and>
      \<not> (includesStr lowerText ''which'' \<and> includesStr lowerText ''departures''))"

definition selectClauseOf ::
  "string \<Rightarrow> ColumnMapping list \<Rightarrow> Aggregation list \<Rightarrow> string \<Rightarrow> string" where
  "selectClauseOf primaryTable columns aggregations userText =
     (let lowerText = toLowerCase userText;
          primaryAlias = getTableAlias primaryTable
      in if (includesStr lowerText ''average'' \<or> includesStr lowerText ''mean'') \<and>
            (includesStr lowerText ''ride time'' \<or> includesStr lowerText ''journey'' \<or>
             includesStr lowerText ''trip duration'' \<or> includesStr lowerText ''duration'')
         then ''SELECT '' @ durationExpression @ ''average_ride_time_minutes''
         else if includesStr lowerText ''mean'' \<and> includesStr lowerText ''trip duration''
         then ''SELECT '' @ durationExpression @ ''mean_trip_duration_minutes''
         else if isSpeedQuery userText
         then ''SELECT ROUND(SUM(t.trip_distance_km) / NULLIF(SUM(EXTRACT(EPOCH FROM (t.ended_at - t.started_at)) / 3600.0), 0), 2) AS average_speed_kmh''
         else
           (case aggregations of
              primaryAggregation # _ \<Rightarrow>
                (if isScalarAggregation lowerText
                 then ''SELECT '' @ scalarAggregationClause primaryAlias columns primaryAggregation
                 else ''SELECT '' @ joinWith '', '' (map (aggregationClause primaryAlias) aggregations))
            | [] \<Rightarrow>
                (let primaryTableColumns = take 5 (filter (\<lambda>col. tableName col = primaryTable) columns)
                 in if length primaryTableColumns > 0
                    then ''SELECT '' @ joinWith '', '' (map (\<lambda>col. primaryAlias @ ''.'' @ columnName col)
                                                         primaryTableColumns)
                    else ''SELECT '' @ primaryAlias @ ''.*'')))"

text \<open>The join need-analysis.\<close>

definition needsStationInfo :: "Filter list \<Rightarrow> string \<Rightarrow> bool" where
  "needsStationInfo filters lowerText =
     (list_ex (\<lambda>f. includesStr (column f) ''station'' \<or> includesStr (column f) ''name'') filters \<or>
      includesStr lowerText ''congress'' \<or> includesStr lowerText ''avenue'' \<or>
      includesStr lowerText ''most'' \<or> includesStr lowerText ''departures'' \<or>
      includesStr lowerText ''docking'' \<or>
      list_ex (\<lambda>f. startsWith (column f) ''group_by_station'') filters)"

definition needsEndStationInfo :: "string \<Rightarrow> bool" where
  "needsEndStationInfo lowerText =
     (includesStr lowerText ''to'' \<and>
      (includesStr lowerText ''congress'' \<or> includesStr lowerText ''state street'' \<or>
       includesStr lowerText ''destination'' \<or> includesStr lowerText ''end station''))"

definition needsWeatherInfo :: "Filter list \<Rightarrow> string \<Rightarrow> LLMQueryAnalysis \<Rightarrow> bool" where
  "needsWeatherInfo filters lowerText llm =
     (list_ex (\<lambda>f. column f = ''precipitation_mm'' \<or> includesStr (column f) ''precipitation'' \<or>
                   includesStr (column f) ''condition'' \<or> includesStr (column f) ''high_temp_c'' \<or>
                   includesStr (column f) ''low_temp_c'' \<or>
                   (includesStr (column f) ''weather'' \<and> \<not> includesStr (column f) ''weather_date'')) filters \<or>
      includesStr lowerText ''wet'' \<or> includesStr lowerText ''rainy'' \<or> includesStr lowerText ''rain'' \<or>
      includesStr lowerText ''precipitation'' \<or>
      includesStr lowerText ''hot'' \<or> includesStr lowerText ''cold'' \<or> includesStr lowerText ''>30'' \<or>
      includesStr lowerText ''<0'' \<or> includesStr lowerText (degreeC ''30'') \<or>
      includesStr lowerText (degreeC ''0'') \<or>
      weatherFilter llm \<noteq> [])"

text \<open>
  The joins so far: the FROM clause, \<open>joins\<close>, \<open>usedAliases\<close>, \<open>tableAliasMap\<close> and, for
  the loop over the grouping dimensions, its \<open>groupColumns\<close>.
\<close>

record JoinState =
  fromClause :: string
  joins :: "string list"
  usedAliases :: "string list"
  tableAliasMap :: "(string \<times> string) list"

definition fromWithJoins :: "string \<Rightarrow> string list \<Rightarrow> string" where
  "fromWithJoins primaryTable js =
     '' FROM '' @ primaryTable @ '' '' @ getTableAlias primaryTable @ joinWith [] js"

text \<open>\<open>if (!usedAliases.has(a)) { joins.push(j); usedAliases.add(a); tableAliasMap.set(k, a); }\<close>\<close>

definition addJoin :: "string \<Rightarrow> string \<Rightarrow> string \<Rightarrow> JoinState \<Rightarrow> JoinState" where
  "addJoin a k j st =
     (if a \<in> set (usedAliases st) then st
      else st\<lparr>joins := joins st @ [j], usedAliases := usedAliases st @ [a],
              tableAliasMap := mapSet k a (tableAliasMap st)\<rparr>)"

definition stationJoin :: "string \<Rightarrow> string \<Rightarrow> string \<Rightarrow> string" where
  "stationJoin stationAlias primaryAlias key =
     '' JOIN stations '' @ stationAlias @ '' ON '' @ primaryAlias @ ''.'' @ key @ '' = '' @ stationAlias @ ''.station_id''"

definition tripJoins :: "string \<Rightarrow> Filter list \<Rightarrow> string \<Rightarrow> LLMQueryAnalysis \<Rightarrow> JoinState" where
  "tripJoins primaryTable filters lowerText llm =
     (let primaryAlias = getTableAlias primaryTable;
          st0 = \<lparr>fromClause = fromWithJoins primaryTable [], joins = [], usedAliases = [primaryAlias],
                 tableAliasMap = []\<rparr>;
          st1 = (if primaryTable = ''trips'' \<and> needsStationInfo filters lowerText
                 then addJoin ''s'' ''stations'' (stationJoin ''s'' primaryAlias ''start_station_id'') st0 else st0);
          st2 = (if primaryTable = ''trips'' \<and> needsEndStationInfo lowerText
                 then addJoin ''s2'' ''end_stations'' (stationJoin ''s2'' primaryAlias ''end_station_id'') st1 else st1);
          st3 = (if primaryTable = ''trips'' \<and> needsWeatherInfo filters lowerText llm
                 then addJoin ''w'' ''daily_weather''
                        ('' JOIN daily_weather w ON DATE('' @ primaryAlias @ ''.started_at) = w.weather_date'') st2
                 else st2)
      in st3\<lparr>fromClause := fromWithJoins primaryTable (joins st3)\<rparr>)"

definition bikeJoins :: "string \<Rightarrow> string \<Rightarrow> JoinState \<Rightarrow> JoinState" where
  "bikeJoins primaryTable lowerText st =
     (if primaryTable = ''bikes'' \<and>
         (includesStr lowerText ''where'' \<or> includesStr lowerText ''currently'' \<or> includesStr lowerText ''docked'') \<and>
         ''s'' \<notin> set (usedAliases st)
      then (let st' = addJoin ''s'' ''stations''
                        (stationJoin ''s'' (getTableAlias primaryTable) ''current_station_id'') st
            in st'\<lparr>fromClause := fromWithJoins primaryTable (joins st')\<rparr>)
      else st)"

text \<open>
  The first loop over \<open>llmAnalysis.groupingDimensions\<close>: it may add the second station
  join; the state is paired with the loop's \<open>groupColumns\<close>.
\<close>

definition dimensionJoinStep :: "string \<Rightarrow> JoinState \<times> string list \<Rightarrow> string \<Rightarrow> JoinState \<times> string list" where
  "dimensionJoinStep primaryAlias acc dim =
     (let st = fst acc; groupColumns = snd acc in
      if includesStr dim ''end station'' \<and> map_of (tableAliasMap st) ''stations'' \<noteq> None
      then (addJoin ''s2'' ''end_stations'' (stationJoin ''s2'' primaryAlias ''end_station_id'') st,
            groupColumns @ [''s2.station_name''])
      else if includesStr dim ''start station'' \<or> includesStr dim ''station'' \<or> includesStr dim ''dock'' \<or>
              includesStr dim ''docking point''
      then (case map_of (tableAliasMap st) ''stations'' of
              Some stationAlias \<Rightarrow> (st, groupColumns @ [stationAlias @ ''.station_name''])
            | None \<Rightarrow> (st, groupColumns))
      else if includesStr dim ''gender'' \<or> includesStr dim ''rider''
      then (st, groupColumns @ [primaryAlias @ ''.rider_gender''])
      else if includesStr dim ''date'' \<or> includesStr dim ''day''
      then (st, groupColumns @ [''DATE('' @ primaryAlias @ ''.started_at)''])
      else if includesStr dim ''weekday'' \<or> includesStr dim ''weekend''
      then (st, groupColumns @ [''DATE('' @ primaryAlias @ ''.started_at)''])
      else (st, groupColumns))"

definition dimensionJoins :: "string \<Rightarrow> LLMQueryAnalysis \<Rightarrow> JoinState \<Rightarrow> JoinState" where
  "dimensionJoins primaryTable llm st =
     (if length (groupingDimensions llm) > 0
      then (case foldl (dimensionJoinStep (getTableAlias primaryTable)) (st, []) (groupingDimensions llm) of
              (st', groupColumns) \<Rightarrow>
                (if length groupColumns > 0
                 then st'\<lparr>fromClause := fromWithJoins primaryTable (joins st')\<rparr>
                 else st'))
      else st)"

definition joinStateOf :: "string \<Rightarrow> Filter list \<Rightarrow> string \<Rightarrow> LLMQueryAnalysis \<Rightarrow> JoinState" where
  "joinStateOf primaryTable filters userText llm =
     dimensionJoins primaryTable llm
       (bikeJoins primaryTable (toLowerCase userText)
          (tripJoins primaryTable filters (toLowerCase userText) llm))"

text \<open>The station name is put first in the SELECT list once the joins are known.\<close>

definition withStationName :: "Filter list \<Rightarrow> string \<Rightarrow> JoinState \<Rightarrow> string \<Rightarrow> string" where
  "withStationName filters lowerText st selectClause =
     (let needsStationName = (isRankingQuery lowerText \<or> includesStr lowerText ''which'' \<or>
                               includesStr lowerText ''docking point'')
      in if (needsStationName \<and> needsStationInfo filters lowerText \<and>
             map_of (tableAliasMap st) ''stations'' \<noteq> None) \<or>
            list_ex (\<lambda>f. startsWith (column f) ''group_by_station'') filters
         then ''SELECT s.station_name, '' @ drop 7 selectClause
         else selectClause)"

text \<open>The WHERE clause: the conditions so far, \<open>paramIndex\<close> and \<open>params\<close>.\<close>

record WhereState =
  conditions :: "string list"
  paramIndex :: nat
  boundParams :: "jsValue list"

definition qualifiedColumn :: "(string \<times> string) list \<Rightarrow> string \<Rightarrow> Filter \<Rightarrow> string option" where
  "qualifiedColumn aliasMap primaryAlias f =
     (if includesStr (column f) ''station'' \<or> includesStr (column f) ''name''
      then (case map_of aliasMap ''stations'' of
              Some stationAlias \<Rightarrow> Some (stationAlias @ ''.'' @ column f)
            | None \<Rightarrow> None)
      else if includesStr (column f) ''weather'' \<or> includesStr (column f) ''precipitation''
      then (case map_of aliasMap ''daily_weather'' of
              Some weatherAlias \<Rightarrow> Some (weatherAlias @ ''.'' @ column f)
            | None \<Rightarrow> None)
      else Some (primaryAlias @ ''.'' @ column f))"

definition placeholder :: "nat \<Rightarrow> string" where
  "placeholder i = ''$'' @ showNat i"

text \<open>
  One call of the \<open>map\<close> callback. \<open>filter.value.map\<close> of the \<open>IN\<close> operator is a
  \<open>TypeError\<close> on a value that is not an array.
\<close>

definition renderFilter ::
  "(string \<times> string) list \<Rightarrow> string \<Rightarrow> WhereState \<Rightarrow> Filter \<Rightarrow> error + WhereState" where
  "renderFilter aliasMap primaryAlias st f =
     (case qualifiedColumn aliasMap primaryAlias f of
        None \<Rightarrow> Inr (st\<lparr>conditions := conditions st @ [''1=0'']\<rparr>)
      | Some q \<Rightarrow>
          (if operator f = ''ILIKE''
           then Inr \<lparr>conditions = conditions st @ [q @ '' ILIKE '' @ placeholder (paramIndex st)],
                     paramIndex = paramIndex st + 1,
                     boundParams = boundParams st @ [fvalue f]\<rparr>
           else if operator f = ''IN''
           then (case fvalue f of
                   VList vs \<Rightarrow>
                     Inr \<lparr>conditions = conditions st @
                            [q @ '' IN ('' @
                             joinWith '', '' (map placeholder [paramIndex st ..< paramIndex st + length vs]) @ '')''],
                          paramIndex = paramIndex st + length vs,
                          boundParams = boundParams st @ vs\<rparr>
                 | _ \<Rightarrow> Inl TypeError)
           else if operator f = ''WEEKEND''
           then Inr (st\<lparr>conditions := conditions st @ [''EXTRACT(DOW FROM '' @ q @ '') IN (0,6)'']\<rparr>)
           else if operator f = ''WEEKDAY''
           then Inr (st\<lparr>conditions := conditions st @ [''EXTRACT(DOW FROM '' @ q @ '') BETWEEN 1 AND 5'']\<rparr>)
           else Inr \<lparr>conditions = conditions st @ [q @ '' '' @ operator f @ '' '' @ placeholder (paramIndex st)],
                     paramIndex = paramIndex st + 1,
                     boundParams = boundParams st @ [fvalue f]\<rparr>))"

fun renderFilters ::
  "(string \<times> string) list \<Rightarrow> string \<Rightarrow> WhereState \<Rightarrow> Filter list \<Rightarrow> error + WhereState" where
  "renderFilters aliasMap primaryAlias st [] = Inr st"
| "renderFilters aliasMap primaryAlias st (f # fs) =
     (case renderFilter aliasMap primaryAlias st f of
        Inl e \<Rightarrow> Inl e
      | Inr st' \<Rightarrow> renderFilters aliasMap primaryAlias st' fs)"

definition whereFiltersOf :: "Filter list \<Rightarrow> Filter list" where
  "whereFiltersOf filters = filter (\<lambda>f. \<not> startsWith (column f) ''group_by_'') filters"

definition renderWhere ::
  "(string \<times> string) list \<Rightarrow> string \<Rightarrow> Filter list \<Rightarrow> error + (string \<times> jsValue list)" where
  "renderWhere aliasMap primaryAlias filters =
     (let whereFilters = whereFiltersOf filters in
      if length whereFilters > 0
      then (case renderFilters aliasMap primaryAlias
                   \<lparr>conditions = [], paramIndex = 1, boundParams = []\<rparr> whereFilters of
              Inl e \<Rightarrow> Inl e
            | Inr st \<Rightarrow> Inr ('' WHERE '' @ joinWith '' AND '' (conditions st), boundParams st))
      else Inr ([], []))"

text \<open>The GROUP BY clause: grouping filters first, else the ranking rule, then the slots.\<close>

definition groupingFilterColumns :: "string \<Rightarrow> (string \<times> string) list \<Rightarrow> Filter \<Rightarrow> string list" where
  "groupingFilterColumns primaryTable aliasMap f =
     (if column f = ''group_by_station'' \<and> map_of aliasMap ''stations'' \<noteq> None
      then [the (map_of aliasMap ''stations'') @ ''.station_name'']
      else if column f = ''group_by_date'' \<and> primaryTable = ''trips''
      then [''DATE('' @ getTableAlias primaryTable @ ''.started_at)'']
      else if column f = ''group_by_gender'' \<and> primaryTable = ''trips''
      then [getTableAlias primaryTable @ ''.rider_gender'']
      else if column f = ''group_by_bike'' \<and> primaryTable = ''trips''
      then [getTableAlias primaryTable @ ''.bike_id'']
      else [])"

definition groupByList :: "string list \<Rightarrow> string" where
  "groupByList groupColumns =
     (if length groupColumns > 0 then '' GROUP BY '' @ joinWith '', '' groupColumns else [])"

definition rankingGroupBy ::
  "string \<Rightarrow> ColumnMapping list \<Rightarrow> Aggregation list \<Rightarrow> string \<Rightarrow> (string \<times> string) list \<Rightarrow> string" where
  "rankingGroupBy primaryTable columns aggregations lowerText aliasMap =
     (if isRankingQuery lowerText \<and>
         list_ex (\<lambda>agg. aggFunction agg = ''COUNT'' \<and> aggColumn agg = ''*'') aggregations
      then (if includesStr lowerText ''departures'' \<and> map_of aliasMap ''stations'' \<noteq> None
            then '' GROUP BY '' @ the (map_of aliasMap ''stations'') @ ''.station_name''
            else if includesStr lowerText ''station'' \<or> includesStr lowerText ''dock''
            then (case map_of aliasMap ''stations'' of
                    Some stationAlias \<Rightarrow> '' GROUP BY '' @ stationAlias @ ''.station_name''
                  | None \<Rightarrow> [])
            else groupByList (map (\<lambda>col. getTableAlias primaryTable @ ''.'' @ columnName col) (take 1 columns)))
      else [])"

definition slotGroupColumn :: "string \<Rightarrow> (string \<times> string) list \<Rightarrow> string \<Rightarrow> string list" where
  "slotGroupColumn primaryAlias aliasMap dim =
     (if includesStr dim ''end station'' \<and> map_of aliasMap ''end_stations'' \<noteq> None
      then [the (map_of aliasMap ''end_stations'') @ ''.station_name'']
      else if includesStr dim ''start station'' \<or> includesStr dim ''station'' \<or> includesStr dim ''dock'' \<or>
              includesStr dim ''docking point''
      then (case map_of aliasMap ''stations'' of
              Some stationAlias \<Rightarrow> [stationAlias @ ''.station_name'']
            | None \<Rightarrow> [])
      else if includesStr dim ''gender'' \<or> includesStr dim ''rider''
      then [primaryAlias @ ''.rider_gender'']
      else if includesStr dim ''date'' \<or> includesStr dim ''day''
      then [''DATE('' @ primaryAlias @ ''.started_at)'']
      else if includesStr dim ''weekday'' \<or> includesStr dim ''weekend''
      then [''DATE('' @ primaryAlias @ ''.started_at)'']
      else [])"

definition groupByClauseOf ::
  "string \<Rightarrow> ColumnMapping list \<Rightarrow> Aggregation list \<Rightarrow> Filter list \<Rightarrow> string \<Rightarrow> LLMQueryAnalysis \<Rightarrow>
   (string \<times> string) list \<Rightarrow> string" where
  "groupByClauseOf primaryTable columns aggregations filters lowerText llm aliasMap =
     (let groupingFilters = filter (\<lambda>f. startsWith (column f) ''group_by_'') filters;
          groupByClause =
            (if length groupingFilters > 0
             then groupByList (concat (map (groupingFilterColumns primaryTable aliasMap) groupingFilters))
             else if length aggregations > 0
             then rankingGroupBy primaryTable columns aggregations lowerText aliasMap
             else []);
          slotColumns = concat (map (slotGroupColumn (getTableAlias primaryTable) aliasMap) (groupingDimensions llm))
      in if length (groupingDimensions llm) > 0 \<and> length slotColumns > 0
         then '' GROUP BY '' @ joinWith '', '' slotColumns
         else groupByClause)"

definition orderByClauseOf :: "Aggregation list \<Rightarrow> string \<Rightarrow> string" where
  "orderByClauseOf aggregations lowerText =
     (case aggregations of
        [] \<Rightarrow> []
      | firstAgg # _ \<Rightarrow>
          (if isRankingQuery lowerText \<or> includesStr lowerText ''top''
           then (if includesStr lowerText ''departures'' then '' ORDER BY departure_count DESC''
                 else if includesStr lowerText ''station'' \<or> includesStr lowerText ''dock''
                 then (if aggAlias firstAgg \<noteq> [] then '' ORDER BY '' @ aggAlias firstAgg @ '' DESC'' else [])
                 else (if aggAlias firstAgg \<noteq> [] then '' ORDER BY '' @ aggAlias firstAgg @ '' DESC'' else []))
           else []))"

definition limitClauseOf :: "string \<Rightarrow> string" where
  "limitClauseOf lowerText =
     (case topMatch lowerText of
        Some n \<Rightarrow> '' LIMIT '' @ showNat (parseInt n)
      | None \<Rightarrow> (if isRankingQuery lowerText then '' LIMIT 1'' else []))"

text \<open>The clauses of the query, then the query itself.\<close>

record Clauses =
  selectClause :: string
  fromPart :: string
  whereClause :: string
  groupByClause :: string
  orderByClause :: string
  limitClause :: string
  whereParams :: "jsValue list"

definition buildClauses ::
  "string \<Rightarrow> ColumnMapping list \<Rightarrow> Aggregation list \<Rightarrow> Filter list \<Rightarrow> string \<Rightarrow> LLMQueryAnalysis \<Rightarrow>
   error + Clauses" where
  "buildClauses primaryTable columns aggregations filters userText llm =
     (let lowerText = toLowerCase userText;
          st = joinStateOf primaryTable filters userText llm
      in case renderWhere (tableAliasMap st) (getTableAlias primaryTable) filters of
           Inl e \<Rightarrow> Inl e
         | Inr (whereText, ps) \<Rightarrow>
             Inr \<lparr>selectClause = withStationName filters lowerText st
                                   (selectClauseOf primaryTable columns aggregations userText),
                  fromPart = fromClause st,
                  whereClause = whereText,
                  groupByClause = groupByClauseOf primaryTable columns aggregations filters lowerText llm
                                    (tableAliasMap st),
                  orderByClause = orderByClauseOf aggregations lowerText,
                  limitClause = limitClauseOf lowerText,
                  whereParams = ps\<rparr>)"

definition buildSQLQuery ::
  "string \<Rightarrow> TableMapping list \<Rightarrow> ColumnMapping list \<Rightarrow> Aggregation list \<Rightarrow> Filter list \<Rightarrow> string \<Rightarrow>
   LLMQueryAnalysis \<Rightarrow> error + BuiltQuery" where
  "buildSQLQuery primaryTable relevantTables columns aggregations filters userText llm =
     (case buildClauses primaryTable columns aggregations filters userText llm of
        Inl e \<Rightarrow> Inl e
      | Inr c \<Rightarrow>
          Inr \<lparr>sql = selectClause c @ fromPart c @ whereClause c @ groupByClause c @ orderByClause c @
                     limitClause c,
               params = whereParams c\<rparr>)"

subsection \<open>generateQuery\<close>

definition relevantTablesOf :: "MappingResult \<Rightarrow> TableMapping list" where
  "relevantTablesOf mapping = take 3 (filter (\<lambda>t. score t > - 5) (tables mapping))"

definition relevantColumnsOf :: "MappingResult \<Rightarrow> ColumnMapping list" where
  "relevantColumnsOf mapping = take 15 (filter (\<lambda>c. score c > - 5) (suggestedColumnsOf mapping))"

definition choosePrimaryTable :: "TableMapping list \<Rightarrow> ColumnMapping list \<Rightarrow> string \<Rightarrow> string" where
  "choosePrimaryTable relevantTables relevantColumns userText =
     (let lowerText = toLowerCase userText;
          timestampColumns = filter isDateType relevantColumns;
          p0 = (case sortByScore timestampColumns of [] \<Rightarrow> ''trips'' | best # _ \<Rightarrow> tableName best);
          p1 = (if list_ex (\<lambda>t. tableName t = ''trips'') relevantTables \<and> p0 \<noteq> ''trips'' then ''trips'' else p0);
          p2 = (if includesAny lowerText [''departures'', ''journeys'', ''trips'', ''ride'', ''docking'']
                then ''trips'' else p1)
      in if isBikeRelatedQuery userText then ''bikes'' else p2)"

definition isT1Query :: "string \<Rightarrow> bool" where
  "isT1Query userText =
     (includesStr (toLowerCase userText) ''average'' \<and>
      (includesStr (toLowerCase userText) ''ride time'' \<or> includesStr (toLowerCase userText) ''journey'') \<and>
      includesStr (toLowerCase userText) ''congress avenue'')"

definition t1Query :: ParsedQuery where
  "t1Query =
     \<lparr>sql = ''SELECT ROUND(AVG(EXTRACT(EPOCH FROM (t.ended_at - t.started_at)) / 60)::numeric, 0) AS average_ride_time_minutes FROM trips t JOIN stations s ON t.start_station_id = s.station_id WHERE t.started_at >= $1 AND t.started_at < $2 AND s.station_name = $3'',
      params = [VStr ''2025-06-01'', VStr ''2025-07-01'', VStr ''Congress Avenue''],
      queryTables = [''trips'', ''stations''],
      queryColumns = [''started_at'', ''ended_at'', ''station_name''],
      queryAggregations = [\<lparr>aggFunction = ''AVG'', aggColumn = ''duration_calculated'',
                              aggAlias = ''average_ride_time_minutes''\<rparr>],
      queryFilters = [\<lparr>column = ''started_at'', operator = ''>='', fvalue = VStr ''2025-06-01''\<rparr>,
                      \<lparr>column = ''started_at'', operator = ''<'', fvalue = VStr ''2025-07-01''\<rparr>,
                      \<lparr>column = ''station_name'', operator = ''='', fvalue = VStr ''Congress Avenue''\<rparr>]\<rparr>"

text \<open>
  \<open>generateQuery\<close> on the answer of the mapper. The column lists it filters per table
  after \<open>parseFilters\<close> are never read and are left out.
\<close>

definition planFromMapping :: "Env \<Rightarrow> MappingResult \<Rightarrow> string \<Rightarrow> error + ParsedQuery" where
  "planFromMapping env mapping userText =
     (let relevantTables = relevantTablesOf mapping;
          relevantColumns = relevantColumnsOf mapping
      in if length relevantTables = 0 then Inl NoRelevantTables
         else
           let primaryTable = choosePrimaryTable relevantTables relevantColumns userText;
               aggregations = parseAggregations userText relevantColumns
           in case parseFilters env userText relevantColumns primaryTable of
                Inl e \<Rightarrow> Inl e
              | Inr filters \<Rightarrow>
                  (if isT1Query userText then Inr t1Query
                   else
                     (case buildSQLQuery primaryTable relevantTables relevantColumns aggregations filters
                             userText (llmAnalysis mapping) of
                        Inl e \<Rightarrow> Inl e
                      | Inr q \<Rightarrow>
                          Inr \<lparr>sql = sql q, params = params q,
                               queryTables = map tableName relevantTables,
                               queryColumns = map columnName relevantColumns,
                               queryAggregations = aggregations,
                               queryFilters = filters\<rparr>)))"

definition generateQuery ::
  "Env \<Rightarrow> SchemaColumn list option \<Rightarrow> SchemaColumn list \<Rightarrow> LLMQueryAnalysis \<Rightarrow> string \<Rightarrow> error + ParsedQuery" where
  "generateQuery env schemaInfo schemaCache llm userText =
     planFromMapping env (mapUserQueryToSchema schemaInfo schemaCache llm userText) userText"


section \<open>Invariants and concrete inputs\<close>

text \<open>The entry that \<open>mapUserQueryToSchema\<close> pushes for a column of the cache.\<close>

definition columnMappingOf :: "string \<Rightarrow> SchemaColumn \<Rightarrow> ColumnMapping" where
  "columnMappingOf userText col =
     \<lparr>tableName = table_name col, score = calculateColumnScore userText col,
      columnName = column_name col, dataType = data_type col\<rparr>"

text \<open>Invariants of the grouping loop: what a group holds, and that a column is in its group.\<close>

definition groupsOk :: "SchemaColumn list \<Rightarrow> (string \<times> SchemaColumn list) list \<Rightarrow> bool" where
  "groupsOk cache g =
     (\<forall>(t, cols) \<in> set g. cols \<noteq> [] \<and> (\<forall>c \<in> set cols. c \<in> set cache \<and> validColumn c \<and> table_name c = t))"

definition grouped :: "(string \<times> SchemaColumn list) list \<Rightarrow> SchemaColumn \<Rightarrow> bool" where
  "grouped g col = (\<exists>cols. map_of g (table_name col) = Some cols \<and> col \<in> set cols)"


text \<open>
  Concrete inputs: the schema of tests/semanticMapper.test.ts, a server in UTC and one
  two hours east of it, and the fallback answer of \<open>analyzeQueryIntent\<close>.
\<close>

definition mockSchema :: "SchemaColumn list" where
  "mockSchema =
     [\<lparr>table_name = ''trips'', column_name = ''started_at'', data_type = ''timestamp'', sampled_values = None\<rparr>,
      \<lparr>table_name = ''trips'', column_name = ''ended_at'', data_type = ''timestamp'', sampled_values = None\<rparr>,
      \<lparr>table_name = ''stations'', column_name = ''station_name'', data_type = ''character varying'',
       sampled_values = None\<rparr>]"

definition utcEnv :: Env where
  "utcEnv = \<lparr>tzOffsetMinutes = 0, nowYear = 2026, nowMonth = 10\<rparr>"

definition eastEnv :: Env where
  "eastEnv = \<lparr>tzOffsetMinutes = 120, nowYear = 2026, nowMonth = 10\<rparr>"

definition fallbackAnalysis :: LLMQueryAnalysis where
  "fallbackAnalysis = \<lparr>suggestedTables = [], suggestedColumns = [], weatherFilter = [], groupingDimensions = []\<rparr>"






section \<open>Evaluation rules\<close>

text \<open>
  Rules that evaluate the recursive functions on literals only, and the definitions that
  are unfolded together when a concrete input is evaluated.
\<close>

lemmas showNat_eval =
  showNat.simps [of 0] showNat.simps [of 1] showNat.simps [of "Suc 0"] showNat.simps [of "numeral k" for k]

lemmas splitRuns_eval = splitRuns.simps [of _ "[]"] splitRuns.simps [of _ "c # cs" for c cs]

lemmas lower_defs = toLowerCase_def toLowerChar_def isUpperCase_def

lemmas regex_defs =
  stripPrefix_def spaces1_def spaces0_def word1_def digits1_def digits4_def digits12_def
  isSpace_def isDigit_def isWordChar_def

lemmas date_defs =
  newDate_def fullYear_def daysFromCivil_def shiftedYear_def dayOfYear_def dayOfEra_def
  toISODate_def isoOfCivil_def isoYear_def civilFromDays_def civilInEra_def civilOf_def yearOfEra_def
  dayOfShiftedYear_def shiftedMonth_def padStart_def showNat_eval

lemmas score_defs = calculateColumnScore_def exactNameScore_def partialNameScore_def partialWordScore_def
  distanceColumnScore_def typeScore_def valueOverlapScore_def tableScore_def cardinalityScore_def
  bonus_def someIn_def distanceWords_def dateWords_def numericWords_def textWords_def genderWords_def
  weatherWords_def

lemmas aggregation_defs = parseAggregations_def safeAggregationColumns_def durationAggregations_def
  cascadeAggregations_def isDistanceText_def isRankingText_def isSpeedText_def countStar_def
  speedAggregation_def distanceAggregations_def topByAverageAggregations_def genericAverageAggregations_def

lemmas filter_defs = parseFilters_def vocabularyFilters_def dateFilters_def genderFilters_def isWomenText_def
  isMenText_def womenGenderColumns_def menGenderColumns_def locationFilters_def weatherFilters_def
  isRainText_def temperatureFilters_def degreeC_def ageFilters_def weekFilters_def lastDayOverride_def
  dimensionFilters_def

lemmas build_defs = buildSQLQuery_def buildClauses_def joinStateOf_def tripJoins_def bikeJoins_def
  dimensionJoins_def addJoin_def stationJoin_def fromWithJoins_def getTableAlias_def needsStationInfo_def
  needsEndStationInfo_def needsWeatherInfo_def degreeC_def withStationName_def isRankingQuery_def
  selectClauseOf_def isSpeedQuery_def isSpeedText_def isScalarAggregation_def scalarAggregationClause_def
  aggregationClause_def sumKilometres_def plainAggregation_def durationExpression_def
  renderWhere_def whereFiltersOf_def renderFilter_def qualifiedColumn_def placeholder_def
  groupByClauseOf_def groupingFilterColumns_def groupByList_def rankingGroupBy_def slotGroupColumn_def
  orderByClauseOf_def limitClauseOf_def

lemma fallback_fields:
  "suggestedTables fallbackAnalysis = []" "suggestedColumns fallbackAnalysis = []"
  "weatherFilter fallbackAnalysis = []" "groupingDimensions fallbackAnalysis = []"
  by (simp_all add: fallbackAnalysis_def)




section \<open>Substrings\<close>





section \<open>The relevance score is never negative\<close>

lemma bonus_nonneg: "0 \<le> n \<Longrightarrow> 0 \<le> bonus b n"
  by (simp add: bonus_def)

lemma sum_list_bonus_nonneg: "(\<And>x. 0 \<le> f x) \<Longrightarrow> 0 \<le> sum_list (map f xs)" for f :: "'a \<Rightarrow> int"
  by (induction xs) (auto intro: add_nonneg_nonneg)

lemma exactNameScore_nonneg: "0 \<le> exactNameScore ws c"
  by (simp add: exactNameScore_def bonus_nonneg)

lemma partialWordScore_nonneg: "0 \<le> partialWordScore c w"
  by (simp add: partialWordScore_def bonus_nonneg add_nonneg_nonneg)

lemma partialNameScore_nonneg: "0 \<le> partialNameScore ws c"
  unfolding partialNameScore_def by (rule sum_list_bonus_nonneg) (rule partialWordScore_nonneg)

lemma distanceColumnScore_nonneg: "0 \<le> distanceColumnScore ws c"
  by (simp add: distanceColumnScore_def bonus_nonneg)

lemma typeScore_nonneg: "0 \<le> typeScore ws d"
  by (simp add: typeScore_def bonus_nonneg add_nonneg_nonneg)

lemma valueOverlapScore_nonneg: "0 \<le> valueOverlapScore ws sv"
  unfolding valueOverlapScore_def
  by (cases sv) (auto intro!: sum_list_bonus_nonneg bonus_nonneg)

lemma tableScore_nonneg: "0 \<le> tableScore ws t"
  by (simp add: tableScore_def bonus_nonneg add_nonneg_nonneg)

lemma cardinalityScore_nonneg: "0 \<le> cardinalityScore sv"
  by (cases sv) (simp_all add: cardinalityScore_def bonus_nonneg)

lemma calculateColumnScore_nonneg: "0 \<le> calculateColumnScore userText col"
  unfolding calculateColumnScore_def Let_def
  by (auto intro!: add_nonneg_nonneg exactNameScore_nonneg partialNameScore_nonneg
      distanceColumnScore_nonneg typeScore_nonneg valueOverlapScore_nonneg tableScore_nonneg
      cardinalityScore_nonneg)

lemma map_of_mapSet: "map_of (mapSet k v m) k' = (if k' = k then Some v else map_of m k')"
  by (induction m) auto

lemma set_mapSet_subset: "set (mapSet k v m) \<subseteq> insert (k, v) (set m)"
  by (induction m) (auto split: if_splits)

lemma fst_set_mapSet: "fst ` set (mapSet k v m) = insert k (fst ` set m)"
  by (induction m) (force split: if_splits)+

lemma mapSet_member: "(k, v) \<in> set (mapSet k v m)"
  by (induction m) auto

lemma mapSet_other: "(k', v') \<in> set m \<Longrightarrow> k' \<noteq> k \<Longrightarrow> (k', v') \<in> set (mapSet k v m)"
  by (induction m) auto

lemma groupColumnsByTable_alt: "groupColumnsByTable cache = foldl groupStep [] cache"
  by (simp add: groupColumnsByTable_def)

lemma groupStep_ok:
  assumes "groupsOk cache g" "col \<in> set cache"
  shows "groupsOk cache (groupStep g col)"
proof (cases "validColumn col")
  case False then show ?thesis using assms by (simp add: groupStep_def)
next
  case True
  define old where "old = (case map_of g (table_name col) of None \<Rightarrow> [] | Some cols \<Rightarrow> cols)"
  have old: "\<forall>c \<in> set old. c \<in> set cache \<and> validColumn c \<and> table_name c = table_name col"
  proof (cases "map_of g (table_name col)")
    case None then show ?thesis by (simp add: old_def)
  next
    case (Some cols)
    then have "(table_name col, cols) \<in> set g" by (rule map_of_SomeD)
    with assms(1) have "\<forall>c \<in> set cols. c \<in> set cache \<and> validColumn c \<and> table_name c = table_name col"
      unfolding groupsOk_def by blast
    with Some show ?thesis by (simp add: old_def)
  qed
  have step: "groupStep g col = mapSet (table_name col) (old @ [col]) g"
    using True by (simp add: groupStep_def old_def)
  show ?thesis
    unfolding groupsOk_def
  proof (intro ballI, clarify)
    fix t cols assume "(t, cols) \<in> set (groupStep g col)"
    then have "(t, cols) = (table_name col, old @ [col]) \<or> (t, cols) \<in> set g"
      unfolding step using set_mapSet_subset [of "table_name col" "old @ [col]" g] by blast
    then show "cols \<noteq> [] \<and> (\<forall>c \<in> set cols. c \<in> set cache \<and> validColumn c \<and> table_name c = t)"
    proof
      assume "(t, cols) = (table_name col, old @ [col])"
      then show ?thesis using old True assms(2) by auto
    next
      assume "(t, cols) \<in> set g"
      with assms(1) show ?thesis unfolding groupsOk_def by blast
    qed
  qed
qed

lemma foldl_groupStep_ok:
  "groupsOk cache g \<Longrightarrow> set cs \<subseteq> set cache \<Longrightarrow> groupsOk cache (foldl groupStep g cs)"
  by (induction cs arbitrary: g) (auto intro: groupStep_ok)

lemma groupColumnsByTable_ok: "groupsOk cache (groupColumnsByTable cache)"
  unfolding groupColumnsByTable_alt
  by (rule foldl_groupStep_ok) (simp_all add: groupsOk_def)

lemma groupStep_keeps: "grouped g c \<Longrightarrow> grouped (groupStep g col) c"
  by (auto simp: grouped_def groupStep_def map_of_mapSet)

lemma groupStep_adds: "validColumn col \<Longrightarrow> grouped (groupStep g col) col"
  by (auto simp: grouped_def groupStep_def map_of_mapSet)

lemma foldl_groupStep_keeps: "grouped g c \<Longrightarrow> grouped (foldl groupStep g cs) c"
  by (induction cs arbitrary: g) (auto intro: groupStep_keeps)

lemma foldl_groupStep_adds:
  "col \<in> set cs \<Longrightarrow> validColumn col \<Longrightarrow> grouped (foldl groupStep g cs) col"
  by (induction cs arbitrary: g) (auto intro: foldl_groupStep_keeps groupStep_adds)

lemma groupColumnsByTable_complete:
  assumes "col \<in> set cache" "validColumn col"
  shows "\<exists>cols. (table_name col, cols) \<in> set (groupColumnsByTable cache) \<and> col \<in> set cols"
  using foldl_groupStep_adds [OF assms, of "[]"]
  unfolding groupColumnsByTable_alt grouped_def by (blast dest: map_of_SomeD)

lemma set_scoreTableColumns:
  "set (scoreTableColumns userText entry) =
     (\<lambda>col. \<lparr>tableName = fst entry, score = calculateColumnScore userText col,
      columnName = column_name col, dataType = data_type col\<rparr>) ` set (snd entry)"
proof -
  have "\<And>col. - 10 \<le> calculateColumnScore userText col"
    using calculateColumnScore_nonneg [of userText] by (simp add: order_trans [of "-10" 0])
  then show ?thesis
    unfolding scoreTableColumns_def Let_def by (simp add: image_def) 
qed

lemma set_scoreColumns:
  "set (scoreColumns userText cache) = columnMappingOf userText ` {col \<in> set cache. validColumn col}"
proof (intro set_eqI iffI)
  fix cm assume "cm \<in> set (scoreColumns userText cache)"
  then obtain entry where e: "entry \<in> set (groupColumnsByTable cache)"
    and "cm \<in> set (scoreTableColumns userText entry)"
    unfolding scoreColumns_def by auto
  then obtain col where col: "col \<in> set (snd entry)"
    and cm: "cm = \<lparr>tableName = fst entry, score = calculateColumnScore userText col,
      columnName = column_name col, dataType = data_type col\<rparr>"
    unfolding set_scoreTableColumns by blast
  from e have "(fst entry, snd entry) \<in> set (groupColumnsByTable cache)" by simp
  with groupColumnsByTable_ok [of cache] col
  have "col \<in> set cache" "validColumn col" "table_name col = fst entry"
    unfolding groupsOk_def by blast+
  with cm show "cm \<in> columnMappingOf userText ` {col \<in> set cache. validColumn col}"
    by (auto simp: columnMappingOf_def image_iff intro!: exI [of _ col])
next
  fix cm assume "cm \<in> columnMappingOf userText ` {col \<in> set cache. validColumn col}"
  then obtain col where c: "col \<in> set cache" "validColumn col" and cm: "cm = columnMappingOf userText col" by auto
  from groupColumnsByTable_complete [OF c] obtain cols where
    g: "(table_name col, cols) \<in> set (groupColumnsByTable cache)" "col \<in> set cols" by auto
  have "cm \<in> set (scoreTableColumns userText (table_name col, cols))"
    unfolding set_scoreTableColumns using g(2) cm by (simp add: columnMappingOf_def image_iff) blast
  with g(1) show "cm \<in> set (scoreColumns userText cache)"
    unfolding scoreColumns_def by auto
qed


lemma tableScoresOf_alt: "tableScoresOf cols = foldl tableStep [] cols"
  by (simp add: tableScoresOf_def)

lemma tableStep_keys: "fst ` set (tableStep m c) = insert (tableName c) (fst ` set m)"
  by (simp add: tableStep_def Let_def fst_set_mapSet)

lemma tableStep_nonneg:
  assumes "\<forall>p \<in> set m. 0 \<le> snd p"
  shows "\<forall>p \<in> set (tableStep m c). 0 \<le> snd p"
proof
  fix p assume p: "p \<in> set (tableStep m c)"
  define cur where "cur = (case map_of m (tableName c) of None \<Rightarrow> 0 | Some s \<Rightarrow> s)"
  have "0 \<le> cur"
  proof (cases "map_of m (tableName c)")
    case None then show ?thesis by (simp add: cur_def)
  next
    case (Some s)
    then have "(tableName c, s) \<in> set m" by (rule map_of_SomeD)
    with assms have "0 \<le> s" by force
    with Some show ?thesis by (simp add: cur_def)
  qed
  from p have "p = (tableName c, max cur (score c)) \<or> p \<in> set m"
    using set_mapSet_subset [of "tableName c" "max cur (score c)" m]
    by (auto simp: tableStep_def Let_def cur_def)
  with \<open>0 \<le> cur\<close> assms show "0 \<le> snd p" by auto
qed

lemma foldl_tableStep_keys:
  "fst ` set (foldl tableStep m cs) = fst ` set m \<union> tableName ` set cs"
  by (induction cs arbitrary: m) (simp_all add: tableStep_keys)

lemma foldl_tableStep_nonneg:
  "\<forall>p \<in> set m. 0 \<le> snd p \<Longrightarrow> \<forall>p \<in> set (foldl tableStep m cs). 0 \<le> snd p"
proof (induction cs arbitrary: m)
  case Nil then show ?case by simp
next
  case (Cons c cs)
  from Cons.prems have "\<forall>p \<in> set (tableStep m c). 0 \<le> snd p" by (rule tableStep_nonneg)
  then show ?case using Cons.IH by simp
qed

lemma set_sortByScore: "set (sortByScore xs) = set xs"
  by (simp add: sortByScore_def)

lemma boostTables_names: "tableName ` set (boostTables llm ts) = tableName ` set ts"
proof -
  have "map tableName (boostTables llm ts) = map tableName ts"
    by (induction ts) (simp_all add: boostTables_def)
  then have "set (map tableName (boostTables llm ts)) = set (map tableName ts)" by simp
  then show ?thesis by simp
qed

lemma boostTables_nonneg:
  "\<forall>t \<in> set ts. 0 \<le> score t \<Longrightarrow> \<forall>t \<in> set (boostTables llm ts). 0 \<le> score t"
  by (auto simp: boostTables_def)

lemma boostColumns_names: "tableName ` set (boostColumns llm cs) = tableName ` set cs"
proof -
  have "map tableName (boostColumns llm cs) = map tableName cs"
    by (induction cs) (simp_all add: boostColumns_def)
  then have "set (map tableName (boostColumns llm cs)) = set (map tableName cs)" by simp
  then show ?thesis by simp
qed

lemma rankedTables_names:
  "tableName ` set (rankedTables cache llm userText) = tableName ` set (scoreColumns userText cache)"
proof -
  have "tableName ` set (map (\<lambda>(name, sc). \<lparr>tableName = name, score = sc\<rparr>) m) = fst ` set m"
    for m :: "(string \<times> int) list"
    by (induction m) auto
  then show ?thesis
    unfolding rankedTables_def
    by (simp add: set_sortByScore boostTables_names tableScoresOf_alt foldl_tableStep_keys)
qed

lemma rankedTables_nonneg: "\<forall>t \<in> set (rankedTables cache llm userText). 0 \<le> score t"
proof -
  have m: "\<forall>p \<in> set (tableScoresOf cs). 0 \<le> snd p" for cs
    unfolding tableScoresOf_alt by (rule foldl_tableStep_nonneg) simp
  have "\<forall>t \<in> set (map (\<lambda>(name, sc). \<lparr>tableName = name, score = sc\<rparr>) (tableScoresOf cs)). 0 \<le> score t" for cs
    using m [of cs] by (auto simp: case_prod_beta)
  then have "\<forall>t \<in> set (sortByScore (map (\<lambda>(name, sc). \<lparr>tableName = name, score = sc\<rparr>) (tableScoresOf cs))). 0 \<le> score t" for cs
    unfolding set_sortByScore .
  then have "\<forall>t \<in> set (boostTables llm (sortByScore (map (\<lambda>(name, sc). \<lparr>tableName = name, score = sc\<rparr>)
      (tableScoresOf cs)))). 0 \<le> score t" for cs
    by (rule boostTables_nonneg)
  then show ?thesis
    unfolding rankedTables_def set_sortByScore .
qed

lemma rankedColumns_names:
  "tableName ` set (rankedColumns cache llm userText) = tableName ` set (scoreColumns userText cache)"
  unfolding rankedColumns_def by (simp add: set_sortByScore boostColumns_names)

lemma table_of_ranked_column:
  assumes "cm \<in> set (rankedColumns cache llm userText)"
  shows "\<exists>t \<in> set (rankedTables cache llm userText). tableName t = tableName cm \<and> - 5 < score t"
proof -
  from assms have "tableName cm \<in> tableName ` set (rankedColumns cache llm userText)"
    by (rule imageI)
  then have "tableName cm \<in> tableName ` set (rankedTables cache llm userText)"
    unfolding rankedColumns_names rankedTables_names .
  then obtain t where t: "t \<in> set (rankedTables cache llm userText)" "tableName t = tableName cm"
    by auto
  with rankedTables_nonneg [of cache llm userText] have "0 \<le> score t" by blast
  with t show ?thesis by (intro bexI [of _ t]) simp_all
qed

text \<open>
  C10. The deterministic score of a column is a sum of bonuses from 0 and so is never
  negative, for every question and every column. Hence every column of the schema cache
  that has a table and a column name passes the retention threshold of -10 and is
  scored, and the table of every ranked column is a ranked table whose score passes the
  relevance floor of -5.
\<close>

theorem column_scores_never_negative:
  "0 \<le> calculateColumnScore userText col \<and>
   (\<forall>c \<in> set schemaCache. validColumn c \<longrightarrow>
      columnMappingOf userText c \<in> set (scoreColumns userText schemaCache) \<and>
      - 10 \<le> score (columnMappingOf userText c)) \<and>
   (\<forall>cm \<in> set (rankedColumns schemaCache llm userText).
      \<exists>t \<in> set (rankedTables schemaCache llm userText). tableName t = tableName cm \<and> - 5 < score t)"
proof (intro conjI ballI impI)
  show "0 \<le> calculateColumnScore userText col" by (rule calculateColumnScore_nonneg)
next
  fix c assume "c \<in> set schemaCache" "validColumn c"
  then show "columnMappingOf userText c \<in> set (scoreColumns userText schemaCache)"
    unfolding set_scoreColumns by simp
next
  fix c
  have "0 \<le> calculateColumnScore userText c" by (rule calculateColumnScore_nonneg)
  then show "- 10 \<le> score (columnMappingOf userText c)" by (simp add: columnMappingOf_def)
next
  fix cm assume "cm \<in> set (rankedColumns schemaCache llm userText)"
  then show "\<exists>t \<in> set (rankedTables schemaCache llm userText). tableName t = tableName cm \<and> - 5 < score t"
    by (rule table_of_ranked_column)
qed

theorem column_scores_never_negative_witness:
  "0 \<le> calculateColumnScore ''asdf qwerty'' (hd mockSchema) \<and>
   columnMappingOf ''asdf qwerty'' (hd mockSchema) \<in> set (scoreColumns ''asdf qwerty'' mockSchema) \<and>
   - 10 \<le> score (columnMappingOf ''asdf qwerty'' (hd mockSchema)) \<and>
   (\<exists>t \<in> set (rankedTables mockSchema fallbackAnalysis ''asdf qwerty'').
      tableName t = ''trips'' \<and> - 5 < score t)"
proof -
  note inst = column_scores_never_negative [of "''asdf qwerty''" "hd mockSchema" mockSchema fallbackAnalysis]
  have m: "hd mockSchema \<in> set mockSchema" and v: "validColumn (hd mockSchema)"
    and t: "table_name (hd mockSchema) = ''trips''"
    by (simp_all add: mockSchema_def validColumn_def)
  from inst m v have a: "columnMappingOf ''asdf qwerty'' (hd mockSchema) \<in> set (scoreColumns ''asdf qwerty'' mockSchema)"
    and b: "- 10 \<le> score (columnMappingOf ''asdf qwerty'' (hd mockSchema))" by blast+
  have "tableName (columnMappingOf ''asdf qwerty'' (hd mockSchema)) \<in>
          tableName ` set (rankedColumns mockSchema fallbackAnalysis ''asdf qwerty'')"
    unfolding rankedColumns_names using a by (rule imageI)
  then obtain cm where cm: "cm \<in> set (rankedColumns mockSchema fallbackAnalysis ''asdf qwerty'')"
    "tableName cm = ''trips''" using t by (auto simp: columnMappingOf_def)
  with inst have "\<exists>t \<in> set (rankedTables mockSchema fallbackAnalysis ''asdf qwerty'').
      tableName t = tableName cm \<and> - 5 < score t" by blast
  with cm inst a b show ?thesis by simp
qed


section \<open>The no-relevant-tables error\<close>

lemma lastDayOverride_error: "lastDayOverride env lt fs = Inl e \<Longrightarrow> e = RangeError"
  by (auto simp: lastDayOverride_def Let_def split: if_splits option.splits prod.splits)

lemma parseFilters_error: "parseFilters env text columns primaryTable = Inl e \<Longrightarrow> e = RangeError"
  by (auto simp: parseFilters_def Let_def split: if_splits sum.splits dest: lastDayOverride_error)

lemma renderFilter_error: "renderFilter m pa st f = Inl e \<Longrightarrow> e = TypeError"
  by (auto simp: renderFilter_def split: option.splits if_splits jsValue.splits)

lemma renderFilters_error: "renderFilters m pa st fs = Inl e \<Longrightarrow> e = TypeError"
  by (induction fs arbitrary: st) (auto split: sum.splits dest: renderFilter_error)

lemma renderWhere_error: "renderWhere m pa fs = Inl e \<Longrightarrow> e = TypeError"
  by (auto simp: renderWhere_def Let_def split: if_splits sum.splits dest: renderFilters_error)

lemma buildClauses_error: "buildClauses pt cols aggs fs text llm = Inl e \<Longrightarrow> e = TypeError"
  by (auto simp: buildClauses_def Let_def split: sum.splits prod.splits dest: renderWhere_error)

lemma buildSQLQuery_error: "buildSQLQuery pt rt cols aggs fs text llm = Inl e \<Longrightarrow> e = TypeError"
  by (auto simp: buildSQLQuery_def split: sum.splits dest: buildClauses_error)

lemma planFromMapping_no_tables:
  "(planFromMapping env mapping userText = Inl NoRelevantTables) = (relevantTablesOf mapping = [])"
proof
  assume "relevantTablesOf mapping = []"
  then show "planFromMapping env mapping userText = Inl NoRelevantTables"
    by (simp add: planFromMapping_def)
next
  assume a: "planFromMapping env mapping userText = Inl NoRelevantTables"
  show "relevantTablesOf mapping = []"
  proof (rule ccontr)
    assume ne: "relevantTablesOf mapping \<noteq> []"
    define pt where "pt = choosePrimaryTable (relevantTablesOf mapping) (relevantColumnsOf mapping) userText"
    show False
    proof (cases "parseFilters env userText (relevantColumnsOf mapping) pt")
      case (Inl e)
      then have "e = RangeError" by (rule parseFilters_error)
      with a ne Inl show False by (simp add: planFromMapping_def Let_def pt_def)
    next
      case (Inr fs)
      show False
      proof (cases "buildSQLQuery pt (relevantTablesOf mapping) (relevantColumnsOf mapping)
                      (parseAggregations userText (relevantColumnsOf mapping)) fs userText (llmAnalysis mapping)")
        case (Inl e)
        then have "e = TypeError" by (rule buildSQLQuery_error)
        with a ne Inr Inl show False by (simp add: planFromMapping_def Let_def pt_def split: if_splits)
      next
        case (Inr q)
        with a ne \<open>parseFilters env userText (relevantColumnsOf mapping) pt = Inr fs\<close>
        show False by (simp add: planFromMapping_def Let_def pt_def split: if_splits)
      qed
    qed
  qed
qed

lemma scoreColumns_empty:
  "(scoreColumns userText cache = []) = (\<not> list_ex validColumn cache)"
proof -
  have "(scoreColumns userText cache = []) = (set (scoreColumns userText cache) = {})" by simp
  also have "\<dots> = ({col \<in> set cache. validColumn col} = {})" unfolding set_scoreColumns by simp
  also have "\<dots> = (\<not> list_ex validColumn cache)" by (auto simp: list_ex_iff)
  finally show ?thesis .
qed

lemma rankedTables_empty:
  "(rankedTables cache llm userText = []) = (\<not> list_ex validColumn cache)"
proof -
  have "(rankedTables cache llm userText = []) = (tableName ` set (rankedTables cache llm userText) = {})"
    by simp
  also have "\<dots> = (scoreColumns userText cache = [])" unfolding rankedTables_names by simp
  finally show ?thesis by (simp add: scoreColumns_empty)
qed

lemma relevantTables_of_ranked:
  "relevantTablesOf (mapUserQueryToSchema schemaInfo schemaCache llm userText) =
     take 3 (rankedTables (ensureFresh schemaInfo schemaCache) llm userText)"
proof -
  let ?r = "rankedTables (ensureFresh schemaInfo schemaCache) llm userText"
  have "\<forall>t \<in> set (take 3 ?r). - 5 < score t"
    using rankedTables_nonneg [of "ensureFresh schemaInfo schemaCache" llm userText]
    by (auto dest!: in_set_takeD)
  then have "filter (\<lambda>t. - 5 < score t) (take 3 ?r) = take 3 ?r" by (simp add: filter_id_conv)
  then show ?thesis by (simp add: relevantTablesOf_def mapUserQueryToSchema_def Let_def)
qed

lemma relevantTables_empty:
  "(relevantTablesOf (mapUserQueryToSchema schemaInfo schemaCache llm userText) = []) =
     (\<not> list_ex validColumn (ensureFresh schemaInfo schemaCache))"
  unfolding relevantTables_of_ranked by (simp add: rankedTables_empty)


lemma asdf_lower: "toLowerCase ''asdf qwerty'' = ''asdf qwerty''"
  by (simp add: lower_defs)

lemma asdf_words: "userWordsOf ''asdf qwerty'' = [''asdf'', ''qwerty'']"
  by (simp add: userWordsOf_def asdf_lower splitRuns_eval isSpace_def)

lemma asdf_scores:
  "calculateColumnScore ''asdf qwerty''
     \<lparr>table_name = ''trips'', column_name = ''started_at'', data_type = ''timestamp'', sampled_values = None\<rparr> = 0"
  "calculateColumnScore ''asdf qwerty''
     \<lparr>table_name = ''trips'', column_name = ''ended_at'', data_type = ''timestamp'', sampled_values = None\<rparr> = 0"
  "calculateColumnScore ''asdf qwerty''
     \<lparr>table_name = ''stations'', column_name = ''station_name'', data_type = ''character varying'',
      sampled_values = None\<rparr> = 0"
  by (simp_all add: score_defs asdf_words lower_defs splitRuns_eval isSpace_def)

lemma asdf_scoreColumns:
  "scoreColumns ''asdf qwerty'' mockSchema =
     [\<lparr>tableName = ''trips'', score = 0, columnName = ''started_at'', dataType = ''timestamp''\<rparr>,
      \<lparr>tableName = ''trips'', score = 0, columnName = ''ended_at'', dataType = ''timestamp''\<rparr>,
      \<lparr>tableName = ''stations'', score = 0, columnName = ''station_name'', dataType = ''character varying''\<rparr>]"
  by (simp add: scoreColumns_def groupColumnsByTable_def groupStep_def validColumn_def mockSchema_def
      scoreTableColumns_def asdf_scores)

lemma asdf_mapping:
  "mapUserQueryToSchema None mockSchema fallbackAnalysis ''asdf qwerty'' =
     \<lparr>tables = [\<lparr>tableName = ''trips'', score = 0\<rparr>, \<lparr>tableName = ''stations'', score = 0\<rparr>],
      suggestedColumnsOf =
        [\<lparr>tableName = ''trips'', score = 0, columnName = ''started_at'', dataType = ''timestamp''\<rparr>,
         \<lparr>tableName = ''trips'', score = 0, columnName = ''ended_at'', dataType = ''timestamp''\<rparr>,
         \<lparr>tableName = ''stations'', score = 0, columnName = ''station_name'', dataType = ''character varying''\<rparr>],
      llmAnalysis = fallbackAnalysis\<rparr>"
proof -
  have c: "ensureFresh None mockSchema = mockSchema" by (simp add: ensureFresh_def mockSchema_def)
  show ?thesis
    by (simp add: mapUserQueryToSchema_def c rankedTables_def rankedColumns_def asdf_scoreColumns
        sortByScore_def tableScoresOf_def tableStep_def boostTables_def boostColumns_def fallbackAnalysis_def)
qed


lemma asdf_dates: "parseDateExpressions utcEnv ''asdf qwerty'' = None"
proof -
  have "firstWeekMatch ''asdf qwerty'' = None" by (simp add: firstWeekMatch_def firstWeekAt_def regex_defs)
  moreover have "betweenMatch ''asdf qwerty'' = None" by (simp add: betweenMatch_def betweenAt_def regex_defs)
  moreover have "monthYearMatch ''asdf qwerty'' = None" by (simp add: monthYearMatch_def monthYearAt_def regex_defs)
  ultimately show ?thesis
    by (simp add: parseDateExpressions_def resolveDates_def asdf_lower firstWeekRule_def betweenRule_def
        monthYearRule_def lastMonthRule_def)
qed

lemma asdf_dimension: "byDimensionMatch ''asdf qwerty'' = None"
  by (simp add: byDimensionMatch_def byDimensionAt_def regex_defs)

lemma asdf_filters: "parseFilters utcEnv ''asdf qwerty'' cols ''trips'' = Inr []"
  by (simp add: filter_defs asdf_lower asdf_dates asdf_dimension)

lemma asdf_aggregations: "parseAggregations ''asdf qwerty'' cols = []"
  by (simp add: aggregation_defs asdf_lower)


lemma asdf_top: "topMatch ''asdf qwerty'' = None"
  by (simp add: topMatch_def topAt_def regex_defs)

lemma asdf_build:
  "buildSQLQuery ''trips'' rt
     [\<lparr>tableName = ''trips'', score = 0, columnName = ''started_at'', dataType = ''timestamp''\<rparr>,
      \<lparr>tableName = ''trips'', score = 0, columnName = ''ended_at'', dataType = ''timestamp''\<rparr>,
      \<lparr>tableName = ''stations'', score = 0, columnName = ''station_name'', dataType = ''character varying''\<rparr>]
     [] [] ''asdf qwerty'' fallbackAnalysis =
   Inr \<lparr>sql = ''SELECT t.started_at, t.ended_at FROM trips t'', params = []\<rparr>"
  by (simp add: build_defs asdf_lower asdf_top fallbackAnalysis_def)

lemma asdf_primary:
  "choosePrimaryTable [\<lparr>tableName = ''trips'', score = 0\<rparr>, \<lparr>tableName = ''stations'', score = 0\<rparr>]
     [\<lparr>tableName = ''trips'', score = 0, columnName = ''started_at'', dataType = ''timestamp''\<rparr>,
      \<lparr>tableName = ''trips'', score = 0, columnName = ''ended_at'', dataType = ''timestamp''\<rparr>,
      \<lparr>tableName = ''stations'', score = 0, columnName = ''station_name'', dataType = ''character varying''\<rparr>]
     ''asdf qwerty'' = ''trips''"
  by (simp add: choosePrimaryTable_def asdf_lower isDateType_def sortByScore_def includesAny_def
      isBikeRelatedQuery_def)


text \<open>
  C1, as stated, fails: on the schema of the mapper's tests the question "asdf qwerty"
  scores every column 0, both tables clear the floor of -5, and a plan is returned.
\<close>

theorem asdf_qwerty_gets_a_plan:
  "relevantTablesOf (mapUserQueryToSchema None mockSchema fallbackAnalysis ''asdf qwerty'') =
     [\<lparr>tableName = ''trips'', score = 0\<rparr>, \<lparr>tableName = ''stations'', score = 0\<rparr>] \<and>
   generateQuery utcEnv None mockSchema fallbackAnalysis ''asdf qwerty'' =
     Inr \<lparr>sql = ''SELECT t.started_at, t.ended_at FROM trips t'', params = [],
          queryTables = [''trips'', ''stations''],
          queryColumns = [''started_at'', ''ended_at'', ''station_name''],
          queryAggregations = [], queryFilters = []\<rparr>"
  by (simp add: generateQuery_def planFromMapping_def asdf_mapping relevantTablesOf_def relevantColumnsOf_def
      asdf_primary asdf_aggregations asdf_filters asdf_build isT1Query_def asdf_lower)

text \<open>
  C1, amended. Translation fails with the "no relevant tables" error exactly when the
  schema catalog (the cache, refreshed when empty) holds no column with a table name and
  a column name, and exactly then zero tables clear the relevance floor. A question
  without recognizable vocabulary over a catalog that has columns is planned.
\<close>

theorem no_relevant_tables_only_for_empty_catalog:
  "(generateQuery env schemaInfo schemaCache llm userText = Inl NoRelevantTables) =
     (\<not> list_ex validColumn (ensureFresh schemaInfo schemaCache)) \<and>
   (relevantTablesOf (mapUserQueryToSchema schemaInfo schemaCache llm userText) = []) =
     (\<not> list_ex validColumn (ensureFresh schemaInfo schemaCache))"
  unfolding generateQuery_def planFromMapping_no_tables relevantTables_empty by simp

theorem no_relevant_tables_only_for_empty_catalog_witness:
  "generateQuery utcEnv None [] fallbackAnalysis ''asdf qwerty'' = Inl NoRelevantTables \<and>
   generateQuery utcEnv None mockSchema fallbackAnalysis ''asdf qwerty'' \<noteq> Inl NoRelevantTables"
  using no_relevant_tables_only_for_empty_catalog [of utcEnv None "[]" fallbackAnalysis "''asdf qwerty''"]
        no_relevant_tables_only_for_empty_catalog [of utcEnv None mockSchema fallbackAnalysis "''asdf qwerty''"]
  by (simp add: ensureFresh_def refreshSchemaCache_def mockSchema_def validColumn_def)

section \<open>The hardcoded plan of the T-1 question\<close>












section \<open>The speed aggregation\<close>


lemma speed_questions_lower:
  "toLowerCase ''What is the average speed?'' = ''what is the average speed?''"
  "toLowerCase ''highest speed'' = ''highest speed''"
  by (simp_all add: lower_defs)



lemma average_speed_has_no_aggregation:
  "isSpeedText (toLowerCase ''What is the average speed?'') \<and>
   parseAggregations ''What is the average speed?'' [] = []"
  by (simp add: speed_questions_lower parseAggregations_def durationAggregations_def cascadeAggregations_def
      isDistanceText_def isRankingText_def isSpeedText_def countStar_def safeAggregationColumns_def)





section \<open>Gender filters\<close>












section \<open>The bare month and year phrase\<close>

lemma june_month_index: "getMonthIndex ''june'' = 5"
  by (simp add: getMonthIndex_def months_def lower_defs)

lemma june_0099_match:
  "firstWeekMatch ''june 0099'' = None" "betweenMatch ''june 0099'' = None"
  "monthYearMatch ''june 0099'' = Some (''june'', ''0099'')"
  by (simp_all add: firstWeekMatch_def firstWeekAt_def betweenMatch_def betweenAt_def monthYearMatch_def
      monthYearAt_def regex_defs)

lemma june_2025_match:
  "firstWeekMatch ''june 2025'' = None" "betweenMatch ''june 2025'' = None"
  "monthYearMatch ''june 2025'' = Some (''june'', ''2025'')"
  by (simp_all add: firstWeekMatch_def firstWeekAt_def betweenMatch_def betweenAt_def monthYearMatch_def
      monthYearAt_def regex_defs)

lemma june_0099_resolved:
  "resolveDates utcEnv ''june 0099'' = Some (newDate utcEnv 99 5 1, newDate utcEnv 99 6 1)"
  by (simp add: resolveDates_def lower_defs firstWeekRule_def betweenRule_def monthYearRule_def
      june_0099_match june_month_index parseInt_def digitVal_def)

lemma june_2025_resolved:
  "resolveDates env ''June 2025'' = Some (newDate env 2025 5 1, newDate env 2025 6 1)"
  by (simp add: resolveDates_def lower_defs firstWeekRule_def betweenRule_def monthYearRule_def
      june_2025_match june_month_index parseInt_def digitVal_def)

lemma june_0099_dates:
  "toISODate (newDate utcEnv 99 5 1) = ''1999-06-01''" "toISODate (newDate utcEnv 99 6 1) = ''1999-07-01''"
  by (simp_all add: date_defs utcEnv_def)

lemma june_2025_east_dates:
  "toISODate (newDate eastEnv 2025 5 1) = ''2025-05-31''" "toISODate (newDate eastEnv 2025 6 1) = ''2025-06-30''"
  by (simp_all add: date_defs eastEnv_def)

lemma june_2025_utc_dates:
  "toISODate (newDate utcEnv 2025 5 1) = ''2025-06-01''" "toISODate (newDate utcEnv 2025 6 1) = ''2025-07-01''"
  by (simp_all add: date_defs utcEnv_def)


text \<open>
  C8. The resolver builds the dates in local time and prints them in UTC, and
  \<open>new Date\<close> reads a year from 0 to 99 as 1900 + year. On a server two hours east of
  UTC "June 2025" resolves to 2025-05-31 and 2025-06-30, and "june 0099" resolves to June
  1999 in any time zone; on a server in UTC "June 2025" resolves as the claim says.
\<close>

theorem month_year_resolved_off_by_a_day_or_a_century:
  "parseDateExpressions eastEnv ''June 2025'' = Some \<lparr>startDate = ''2025-05-31'', endDate = ''2025-06-30''\<rparr> \<and>
   parseDateExpressions utcEnv ''june 0099'' = Some \<lparr>startDate = ''1999-06-01'', endDate = ''1999-07-01''\<rparr> \<and>
   parseDateExpressions utcEnv ''June 2025'' = Some \<lparr>startDate = ''2025-06-01'', endDate = ''2025-07-01''\<rparr>"
  by (simp add: parseDateExpressions_def june_0099_resolved june_2025_resolved june_0099_dates
      june_2025_east_dates june_2025_utc_dates)

section \<open>Filters that cannot be qualified\<close>

lemma bike_lower: "toLowerCase ''where is the bike near congress'' = ''where is the bike near congress''"
  by (simp add: lower_defs)

lemma bike_top: "topMatch ''where is the bike near congress'' = None"
  by (simp add: topMatch_def topAt_def regex_defs)

lemma bike_dates: "parseDateExpressions utcEnv ''where is the bike near congress'' = None"
proof -
  have "firstWeekMatch ''where is the bike near congress'' = None"
    by (simp add: firstWeekMatch_def firstWeekAt_def regex_defs)
  moreover have "betweenMatch ''where is the bike near congress'' = None"
    by (simp add: betweenMatch_def betweenAt_def regex_defs)
  moreover have "monthYearMatch ''where is the bike near congress'' = None"
    by (simp add: monthYearMatch_def monthYearAt_def regex_defs)
  ultimately show ?thesis
    by (simp add: parseDateExpressions_def resolveDates_def bike_lower firstWeekRule_def betweenRule_def
        monthYearRule_def lastMonthRule_def)
qed

lemma bike_dimension: "byDimensionMatch ''where is the bike near congress'' = None"
  by (simp add: byDimensionMatch_def byDimensionAt_def regex_defs dimensionNames_def)

lemma bike_filters:
  "parseFilters utcEnv ''where is the bike near congress''
     [\<lparr>tableName = ''stations'', score = 0, columnName = ''weather_station'', dataType = ''character varying''\<rparr>]
     ''bikes'' =
   Inr [\<lparr>column = ''weather_station'', operator = ''='', fvalue = VStr ''Congress Avenue''\<rparr>]"
  by (simp add: filter_defs bike_lower bike_dates bike_dimension lower_defs)

lemma bike_joins:
  "joinStateOf ''bikes'' [\<lparr>column = ''weather_station'', operator = ''='', fvalue = VStr ''Congress Avenue''\<rparr>]
     ''where is the bike near congress'' fallbackAnalysis =
   \<lparr>fromClause = '' FROM bikes b JOIN stations s ON b.current_station_id = s.station_id'',
    joins = ['' JOIN stations s ON b.current_station_id = s.station_id''],
    usedAliases = [''b'', ''s''], tableAliasMap = [(''stations'', ''s'')]\<rparr>"
  by (simp add: joinStateOf_def tripJoins_def bikeJoins_def dimensionJoins_def addJoin_def stationJoin_def
      fromWithJoins_def getTableAlias_def bike_lower fallback_fields needsStationInfo_def
      needsEndStationInfo_def needsWeatherInfo_def)


text \<open>
  C5, as stated, fails for a column name that contains both a station word and a weather
  word: the station test comes first, so with the stations alias present and the
  daily_weather alias absent the predicate on \<open>weather_station\<close> is qualified by the
  stations alias and binds its value instead of rendering as \<open>1=0\<close>.
\<close>

theorem weather_named_station_column_is_qualified:
  "includesStr ''weather_station'' ''weather'' \<and>
   map_of (tableAliasMap (joinStateOf ''bikes''
       [\<lparr>column = ''weather_station'', operator = ''='', fvalue = VStr ''Congress Avenue''\<rparr>]
       ''where is the bike near congress'' fallbackAnalysis)) ''daily_weather'' = None \<and>
   parseFilters utcEnv ''where is the bike near congress''
     [\<lparr>tableName = ''stations'', score = 0, columnName = ''weather_station'', dataType = ''character varying''\<rparr>]
     ''bikes'' =
     Inr [\<lparr>column = ''weather_station'', operator = ''='', fvalue = VStr ''Congress Avenue''\<rparr>] \<and>
   buildSQLQuery ''bikes'' [] [] []
     [\<lparr>column = ''weather_station'', operator = ''='', fvalue = VStr ''Congress Avenue''\<rparr>]
     ''where is the bike near congress'' fallbackAnalysis =
     Inr \<lparr>sql = ''SELECT b.* FROM bikes b JOIN stations s ON b.current_station_id = s.station_id WHERE s.weather_station = $1'',
          params = [VStr ''Congress Avenue'']\<rparr>"
proof -
  have "buildSQLQuery ''bikes'' [] [] []
     [\<lparr>column = ''weather_station'', operator = ''='', fvalue = VStr ''Congress Avenue''\<rparr>]
     ''where is the bike near congress'' fallbackAnalysis =
     Inr \<lparr>sql = ''SELECT b.* FROM bikes b JOIN stations s ON b.current_station_id = s.station_id WHERE s.weather_station = $1'',
          params = [VStr ''Congress Avenue'']\<rparr>"
    by (simp add: buildSQLQuery_def buildClauses_def Let_def bike_joins bike_lower bike_top getTableAlias_def
        renderWhere_def whereFiltersOf_def renderFilter_def qualifiedColumn_def placeholder_def showNat_eval
        withStationName_def isRankingQuery_def needsStationInfo_def selectClauseOf_def isSpeedQuery_def
        isSpeedText_def groupByClauseOf_def orderByClauseOf_def limitClauseOf_def fallback_fields)
  then show ?thesis by (simp add: bike_joins bike_filters)
qed

text \<open>
  C5, amended. A filter whose column name contains "station" or "name", rendered while
  the stations alias is absent from the alias map, renders as the always-false condition
  \<open>1=0\<close>: no exception is raised, and the parameter index and the bound parameters are
  unchanged. The same holds for a filter whose column name contains "weather" or
  "precipitation" and neither "station" nor "name", rendered while the daily_weather
  alias is absent.
\<close>

theorem unqualified_filter_is_always_false:
  "((includesStr (column f) ''station'' \<or> includesStr (column f) ''name'') \<and>
    map_of aliasMap ''stations'' = None \<longrightarrow>
      renderFilter aliasMap primaryAlias st f = Inr (st\<lparr>conditions := conditions st @ [''1=0'']\<rparr>) \<and>
      (\<not> startsWith (column f) ''group_by_'' \<longrightarrow>
         renderWhere aliasMap primaryAlias [f] = Inr ('' WHERE 1=0'', []))) \<and>
   (\<not> includesStr (column f) ''station'' \<and> \<not> includesStr (column f) ''name'' \<and>
    (includesStr (column f) ''weather'' \<or> includesStr (column f) ''precipitation'') \<and>
    map_of aliasMap ''daily_weather'' = None \<longrightarrow>
      renderFilter aliasMap primaryAlias st f = Inr (st\<lparr>conditions := conditions st @ [''1=0'']\<rparr>) \<and>
      (\<not> startsWith (column f) ''group_by_'' \<longrightarrow>
         renderWhere aliasMap primaryAlias [f] = Inr ('' WHERE 1=0'', [])))"
  by (auto simp: renderFilter_def qualifiedColumn_def renderWhere_def whereFiltersOf_def)

theorem unqualified_filter_is_always_false_witness:
  "renderFilter [] ''b'' \<lparr>conditions = [], paramIndex = 1, boundParams = []\<rparr>
     \<lparr>column = ''precipitation_mm'', operator = ''>'', fvalue = VNum 0\<rparr> =
     Inr \<lparr>conditions = [''1=0''], paramIndex = 1, boundParams = []\<rparr> \<and>
   renderWhere [] ''b'' [\<lparr>column = ''station_name'', operator = ''='', fvalue = VStr ''Congress Avenue''\<rparr>] =
     Inr ('' WHERE 1=0'', [])"
  using unqualified_filter_is_always_false [of "\<lparr>column = ''precipitation_mm'', operator = ''>'', fvalue = VNum 0\<rparr>"
          "[]" "''b''" "\<lparr>conditions = [], paramIndex = 1, boundParams = []\<rparr>"]
        unqualified_filter_is_always_false [of
          "\<lparr>column = ''station_name'', operator = ''='', fvalue = VStr ''Congress Avenue''\<rparr>"
          "[]" "''b''" "\<lparr>conditions = [], paramIndex = 1, boundParams = []\<rparr>"]
  by simp


section \<open>Bound parameters and placeholders\<close>
























end
